theory Spec2Isabelle
  imports Main
begin

section \<open>The upgrade command (commands/upgrade/__init__.py)\<close>

text \<open>
  The command \<open>upgrade(args, breadcrumbs)\<close> is straight-line code with three raising
  exits and one \<open>sys.exit\<close>. It is modelled by explicit state passing. The state holds
  what the command itself reads and writes: the process environment \<open>os.environ\<close>, the
  stored execution records, and the list of calls the command has made, in the order of
  the source. Every call of a function that is not defined in the file is one entry of
  that list; writes to the logger are left out.

  The helpers of \<open>leapp.cli.commands.upgrade.util\<close>, the configuration object, the
  workflow and the operating system are not part of the sources: what they return is
  taken as a parameter, collected in the record \<open>world\<close>. A helper that the command
  calls for its effect on the environment (\<open>handle_output_level\<close>,
  \<open>prepare_configuration\<close>, \<open>restore_leapp_env_vars\<close>) is a function on the
  environment; the other helpers are modelled by their results only.
\<close>

type_synonym environment = "string \<rightharpoonup> string"

type_synonym configuration = "(string \<times> string) list"

record args =
  resume :: bool
  reboot :: bool
  whitelist_experimental :: "string list"
  debug :: bool
  verbose :: bool
  no_rhsm :: bool
  enablerepo :: "string list"
  channel :: "string option"
  only_with_tags :: "string list option"
  resume_context :: "string option"

text \<open>\<open>Execution(context=..., kind=..., configuration=...)\<close> of \<open>leapp.utils.audit\<close>.\<close>

record execution =
  exec_context :: string
  exec_kind :: string
  exec_configuration :: configuration

text \<open>What the command reads from the workflow after \<open>workflow.run\<close> has returned.\<close>

record run_result =
  errors :: "string list"
  failure :: bool

datatype event =
    Uuid4
  | GetConfig
  | HandleOutputLevel
  | PrepareConfiguration
  | CfgGet string string
  | GetUid
  | FetchLastUpgradeContext "string option"
  | CheckEnvAndConf string string
  | SetEnv string string
  | RestoreLeappEnvVars string
  | GetLastPhase string
  | ExecutionStore string string configuration
  | ArchiveLogfiles
  | ConfigureLogger string
  | LoadRepositories
  | LookupWorkflow string bool
  | ProcessWhitelistExperimental
  | WarnIfUnsupported
  | LoadAnswers string string
  | WorkflowRun string "string option" bool "string list option"
  | SaveAnswers string string
  | ReportErrors "string list"
  | ReportInhibitors string
  | GenerateReportFiles string
  | GetCfgFiles string
  | ReportInfo "string list" "string list" string bool

datatype error = CommandError string

text \<open>
  How a call of \<open>upgrade\<close> ends: it returns, it leaves through \<open>sys.exit(n)\<close>, it
  raises, or \<open>workflow.run\<close> does not return to it (the host reboots, or an exception
  leaves the \<open>with beautify_actor_exception()\<close> block, whose handler is not in the
  sources).
\<close>

datatype outcome = Returned | SystemExit int | Raised error | PipelineDidNotReturn

record world =
  uuid4 :: string
  getuid :: nat
  cfg_get :: "string \<Rightarrow> string \<Rightarrow> string"
  handle_output_level :: "args \<Rightarrow> environment \<Rightarrow> environment"
  prepare_configuration :: "args \<Rightarrow> environment \<Rightarrow> configuration \<times> environment"
  fetch_last_upgrade_context :: "string option \<Rightarrow> execution list \<Rightarrow> string option \<times> configuration"
  check_env_and_conf :: "string \<Rightarrow> string \<Rightarrow> configuration \<Rightarrow> environment \<Rightarrow> bool"
  restore_leapp_env_vars :: "string \<Rightarrow> environment \<Rightarrow> environment"
  get_last_phase :: "string \<Rightarrow> string option"
  load_repositories :: "string option"
  workflow_run :: "string \<Rightarrow> string option \<Rightarrow> string list option \<Rightarrow> run_result option"
  get_cfg_files :: "string \<Rightarrow> string list"

text \<open>
  \<open>load_repositories\<close> is \<open>Some message\<close> when \<open>util.load_repositories()\<close> raises
  \<open>LeappError(message)\<close>; \<open>workflow_run\<close> is \<open>None\<close> when the run does not return.
\<close>

record state =
  environ :: environment
  executions :: "execution list"
  calls :: "event list"

definition process_start :: "environment \<Rightarrow> execution list \<Rightarrow> state" where
  "process_start env store = \<lparr>environ = env, executions = store, calls = []\<rparr>"

definition call :: "event \<Rightarrow> state \<Rightarrow> state" where
  "call e s = s\<lparr>calls := calls s @ [e]\<rparr>"

text \<open>\<open>os.environ[k] = v\<close>\<close>

definition setenv :: "string \<Rightarrow> string \<Rightarrow> state \<Rightarrow> state" where
  "setenv k v s = call (SetEnv k v) (s\<lparr>environ := (environ s)(k \<mapsto> v)\<rparr>)"

definition run_helper :: "event \<Rightarrow> (environment \<Rightarrow> environment) \<Rightarrow> state \<Rightarrow> state" where
  "run_helper e f s = call e (s\<lparr>environ := f (environ s)\<rparr>)"

definition answerfile_path :: "world \<Rightarrow> string" where
  "answerfile_path w = cfg_get w ''report'' ''answerfile''"

definition userchoices_path :: "world \<Rightarrow> string" where
  "userchoices_path w = cfg_get w ''report'' ''userchoices''"

definition root_message :: string where
  "root_message = ''This command has to be run under the root user.''"

definition no_previous_message :: string where
  "no_previous_message =
     ''No previous upgrade run to continue, remove `--resume` from leapp invocation to'' @
     '' start a new upgrade flow''"

text \<open>Lines 33 to 44: everything before the check of the caller's uid.\<close>

definition upgrade_setup :: "world \<Rightarrow> args \<Rightarrow> state \<Rightarrow> configuration \<times> state" where
  "upgrade_setup w a s0 =
     (let s1 = call Uuid4 s0;
          s2 = call GetConfig s1;
          s3 = run_helper HandleOutputLevel (handle_output_level w a) s2;
          prepared = prepare_configuration w a (environ s3);
          s4 = call PrepareConfiguration (s3\<lparr>environ := snd prepared\<rparr>);
          s5 = call (CfgGet ''report'' ''answerfile'') s4;
          s6 = call (CfgGet ''report'' ''userchoices'') s5
      in (fst prepared, s6))"

text \<open>
  Lines 54 to 59. The second \<open>check_env_and_conf\<close> is only called when the variable
  just written does not read \<open>'1'\<close> (Python's \<open>or\<close> evaluates its right side only then).
\<close>

definition set_output_level :: "world \<Rightarrow> configuration \<Rightarrow> state \<Rightarrow> state" where
  "set_output_level w conf s0 =
     (let s1 = call (CheckEnvAndConf ''LEAPP_DEBUG'' ''debug'') s0;
          s2 = setenv ''LEAPP_DEBUG''
                 (if check_env_and_conf w ''LEAPP_DEBUG'' ''debug'' conf (environ s1)
                  then ''1'' else ''0'') s1
      in if environ s2 ''LEAPP_DEBUG'' = Some ''1'' then setenv ''LEAPP_VERBOSE'' ''1'' s2
         else let s3 = call (CheckEnvAndConf ''LEAPP_VERBOSE'' ''verbose'') s2
              in if check_env_and_conf w ''LEAPP_VERBOSE'' ''verbose'' conf (environ s3)
                 then setenv ''LEAPP_VERBOSE'' ''1'' s3
                 else setenv ''LEAPP_VERBOSE'' ''0'' s3)"

text \<open>
  Lines 50 to 61, the branch \<open>if args.resume\<close>. \<open>not context\<close> holds for \<open>None\<close> and for
  the empty string. The result is the resumed context, its stored configuration and
  \<open>skip_phases_until\<close>.
\<close>

definition upgrade_resume ::
  "world \<Rightarrow> args \<Rightarrow> state \<Rightarrow> error \<times> state + (string \<times> configuration \<times> string option) \<times> state" where
  "upgrade_resume w a s0 =
     (let fetched = fetch_last_upgrade_context w (resume_context a) (executions s0);
          s1 = call (FetchLastUpgradeContext (resume_context a)) s0
      in case fst fetched of
           None \<Rightarrow> Inl (CommandError no_previous_message, s1)
         | Some ctx \<Rightarrow>
             if ctx = [] then Inl (CommandError no_previous_message, s1)
             else
               let s2 = set_output_level w (snd fetched) s1;
                   s3 = run_helper (RestoreLeappEnvVars ctx) (restore_leapp_env_vars w ctx) s2;
                   s4 = call (GetLastPhase ctx) s3
               in Inr ((ctx, snd fetched, get_last_phase w ctx), s4))"

text \<open>Lines 63 to 65, the branch \<open>else\<close>: a fresh execution is stored, the logs archived.\<close>

definition upgrade_fresh :: "string \<Rightarrow> configuration \<Rightarrow> state \<Rightarrow> state" where
  "upgrade_fresh ctx conf s0 =
     (let e = \<lparr>exec_context = ctx, exec_kind = ''upgrade'', exec_configuration = conf\<rparr>;
          s1 = call (ExecutionStore ctx ''upgrade'' conf) (s0\<lparr>executions := executions s0 @ [e]\<rparr>);
          s2 = call ArchiveLogfiles s1
      in s2)"

text \<open>Lines 89 to 99: after \<open>workflow.run\<close> has returned.\<close>

definition upgrade_report :: "world \<Rightarrow> string \<Rightarrow> run_result \<Rightarrow> state \<Rightarrow> outcome \<times> state" where
  "upgrade_report w ctx r s0 =
     (let s1 = call (SaveAnswers (answerfile_path w) (userchoices_path w)) s0;
          s2 = call (ReportErrors (errors r)) s1;
          s3 = call (ReportInhibitors ctx) s2;
          s4 = call (GenerateReportFiles ctx) s3;
          s5 = call (GetCfgFiles ''report'') s4;
          s6 = call (GetCfgFiles ''logs'') s5;
          s7 = call (ReportInfo (get_cfg_files w ''report'') (get_cfg_files w ''logs'')
                       (answerfile_path w) (failure r)) s6
      in (if failure r then SystemExit 1 else Returned, s7))"

text \<open>Lines 76 to 87, followed by the report when \<open>workflow.run\<close> returns.\<close>

definition upgrade_pipeline ::
  "world \<Rightarrow> args \<Rightarrow> string \<Rightarrow> string option \<Rightarrow> state \<Rightarrow> outcome \<times> state" where
  "upgrade_pipeline w a ctx skip_phases_until s3 =
     (let s4 = call (LookupWorkflow ''IPUWorkflow'' (reboot a)) s3;
          s5 = call ProcessWhitelistExperimental s4;
          s6 = call WarnIfUnsupported s5;
          s7 = call (LoadAnswers (answerfile_path w) (userchoices_path w)) s6;
          s8 = setenv ''LC_ALL'' ''en_US.UTF-8'' s7;
          s9 = setenv ''LANG'' ''en_US.UTF-8'' s8;
          s10 = call (WorkflowRun ctx skip_phases_until True (only_with_tags a)) s9
      in case workflow_run w ctx skip_phases_until (only_with_tags a) of
           None \<Rightarrow> (PipelineDidNotReturn, s10)
         | Some r \<Rightarrow> upgrade_report w ctx r s10)"

text \<open>Lines 67 to 75, followed by the pipeline when the repositories load.\<close>

definition upgrade_run ::
  "world \<Rightarrow> args \<Rightarrow> string \<Rightarrow> string option \<Rightarrow> state \<Rightarrow> outcome \<times> state" where
  "upgrade_run w a ctx skip_phases_until s0 =
     (let s1 = call (ConfigureLogger ''leapp-upgrade.log'') s0;
          s2 = setenv ''LEAPP_EXECUTION_ID'' ctx s1;
          s3 = call LoadRepositories s2
      in case load_repositories w of
           Some message \<Rightarrow> (Raised (CommandError message), s3)
         | None \<Rightarrow> upgrade_pipeline w a ctx skip_phases_until s3)"

text \<open>The command.\<close>

definition upgrade :: "world \<Rightarrow> args \<Rightarrow> state \<Rightarrow> outcome \<times> state" where
  "upgrade w a s0 =
     (let prepared = upgrade_setup w a s0;
          s1 = call GetUid (snd prepared)
      in if getuid w \<noteq> 0 then (Raised (CommandError root_message), s1)
         else if resume a then
           (case upgrade_resume w a s1 of
              Inl (e, s2) \<Rightarrow> (Raised e, s2)
            | Inr ((ctx, conf, skip_phases_until), s2) \<Rightarrow> upgrade_run w a ctx skip_phases_until s2)
         else upgrade_run w a (uuid4 w) None (upgrade_fresh (uuid4 w) (fst prepared) s1))"

subsection \<open>Helpers that are not in the sources\<close>

text \<open>
  Modelled from the spec: \<open>util.fetch_last_upgrade_context\<close> is not in the sources. The
  spec's \<open>lookupLast(resumeContextId?)\<close>: "if resumeContextId is given, look up that
  specific execution; otherwise select the most recent execution of kind upgrade". These
  are the stored executions the lookup chooses from.
\<close>

definition matching_executions :: "string option \<Rightarrow> execution list \<Rightarrow> execution list" where
  "matching_executions resume_context_id store =
     (case resume_context_id of
        Some c \<Rightarrow> filter (\<lambda>e. exec_context e = c) store
      | None \<Rightarrow> filter (\<lambda>e. exec_kind e = ''upgrade'') store)"

text \<open>
  Modelled from the spec: the result of \<open>lookupLast\<close>, for which not found "is a normal
  (not exceptional) outcome". The store is kept in the order of the writes, so the most
  recent record is the last one.
\<close>

definition spec_fetch_last_upgrade_context ::
  "string option \<Rightarrow> execution list \<Rightarrow> string option \<times> configuration" where
  "spec_fetch_last_upgrade_context resume_context_id store =
     (case rev (matching_executions resume_context_id store) of
        [] \<Rightarrow> (None, [])
      | e # es \<Rightarrow> (Some (exec_context e), exec_configuration e))"

text \<open>
  Modelled from the spec: \<open>util.check_env_and_conf\<close> is not in the sources. The spec:
  each flag is "explicit environment value OR persisted configuration value OR
  disabled"; the enabled value is the \<open>'1'\<close> that the command itself writes.
\<close>

definition spec_check_env_and_conf ::
  "string \<Rightarrow> string \<Rightarrow> configuration \<Rightarrow> environment \<Rightarrow> bool" where
  "spec_check_env_and_conf env_var conf_var conf env =
     (env env_var = Some ''1'' \<or> map_of conf conf_var = Some ''1'')"

text \<open>
  Modelled from the spec: \<open>util.restore_leapp_env_vars\<close> is not in the sources. The
  spec's \<open>restore(executionId)\<close>: "overwrite the current process environment for every
  allow-listed variable with the archived value; any variable not covered by the
  snapshot is left untouched". The snapshot of each execution is given as an association
  list.
\<close>

definition spec_restore_leapp_env_vars ::
  "(string \<Rightarrow> (string \<times> string) list) \<Rightarrow> string \<Rightarrow> environment \<Rightarrow> environment" where
  "spec_restore_leapp_env_vars snapshots ctx env = env ++ map_of (snapshots ctx)"

text \<open>
  Modelled from the spec: \<open>util.get_last_phase\<close> is not in the sources. The spec's
  \<open>lastCompletedPhase(executionId)\<close> "returns the name of the last phase known to have
  fully completed, or None if the execution never progressed past the start". The
  history gives, for each execution, the phases it completed, oldest first.
\<close>

definition spec_get_last_phase :: "(string \<times> string list) list \<Rightarrow> string \<Rightarrow> string option" where
  "spec_get_last_phase history ctx =
     (case map_of history ctx of
        None \<Rightarrow> None
      | Some phases \<Rightarrow> (case rev phases of [] \<Rightarrow> None | p # ps \<Rightarrow> Some p))"


subsection \<open>A concrete host\<close>

text \<open>
  One stored execution \<open>abc-123\<close> with configuration \<open>{debug: '1'}\<close>, whose history
  ends with the phase \<open>Download\<close>; a pipeline that returns with two errors. The helpers
  that prepare the output level and the configuration leave the environment alone here.
\<close>

definition example_store :: "execution list" where
  "example_store =
     [\<lparr>exec_context = ''abc-123'', exec_kind = ''upgrade'',
       exec_configuration = [(''debug'', ''1'')]\<rparr>]"

text \<open>The same execution stored with configuration \<open>{debug: '0', verbose: '1'}\<close>.\<close>

definition verbose_store :: "execution list" where
  "verbose_store =
     [\<lparr>exec_context = ''abc-123'', exec_kind = ''upgrade'',
       exec_configuration = [(''debug'', ''0''), (''verbose'', ''1'')]\<rparr>]"

definition example_history :: "(string \<times> string list) list" where
  "example_history = [(''abc-123'', [''FactsCollection'', ''Checks'', ''Download''])]"

definition example_snapshots :: "string \<Rightarrow> (string \<times> string) list" where
  "example_snapshots ctx = (if ctx = ''abc-123'' then [(''LEAPP_UNSUPPORTED'', ''0'')] else [])"

definition example_world :: world where
  "example_world =
     \<lparr>uuid4 = ''0a1b2c3d'',
      getuid = 0,
      cfg_get = (\<lambda>section key. ''/var/log/leapp/'' @ key),
      handle_output_level = (\<lambda>a env. env),
      prepare_configuration =
        (\<lambda>a env. ([(''debug'', if debug a then ''1'' else ''0''),
                     (''verbose'', if verbose a then ''1'' else ''0'')], env)),
      fetch_last_upgrade_context = spec_fetch_last_upgrade_context,
      check_env_and_conf = spec_check_env_and_conf,
      restore_leapp_env_vars = spec_restore_leapp_env_vars example_snapshots,
      get_last_phase = spec_get_last_phase example_history,
      load_repositories = None,
      workflow_run = (\<lambda>ctx skip_phases_until tags. Some \<lparr>errors = [''e1'', ''e2''], failure = True\<rparr>),
      get_cfg_files = (\<lambda>section. [''/var/log/leapp/leapp-'' @ section @ ''.txt''])\<rparr>"

definition fresh_args :: args where
  "fresh_args =
     \<lparr>resume = False, reboot = False, whitelist_experimental = [], debug = False,
      verbose = False, no_rhsm = False, enablerepo = [], channel = None,
      only_with_tags = None, resume_context = None\<rparr>"

definition resume_args :: args where
  "resume_args = fresh_args\<lparr>resume := True\<rparr>"


subsection \<open>Reading the list of calls\<close>

text \<open>
  The properties below speak about the order of the command's calls. \<open>before_run\<close> is
  the part of a list of calls up to the first \<open>workflow.run\<close>, \<open>after_run\<close> the part
  behind it, and \<open>written k\<close> lists the values the command assigned to
  \<open>os.environ[k]\<close>, in order.
\<close>

fun is_run :: "event \<Rightarrow> bool" where
  "is_run (WorkflowRun ctx skip_phases_until skip_dialogs tags) = True"
| "is_run e = False"

definition before_run :: "event list \<Rightarrow> event list" where
  "before_run es = takeWhile (\<lambda>e. \<not> is_run e) es"

definition after_run :: "event list \<Rightarrow> event list" where
  "after_run es = drop 1 (dropWhile (\<lambda>e. \<not> is_run e) es)"

fun written_by :: "string \<Rightarrow> event \<Rightarrow> string list" where
  "written_by k (SetEnv k' v) = (if k' = k then [v] else [])"
| "written_by k e = []"

definition written :: "string \<Rightarrow> event list \<Rightarrow> string list" where
  "written k es = concat (map (written_by k) es)"

fun is_setenv :: "event \<Rightarrow> bool" where
  "is_setenv (SetEnv k v) = True"
| "is_setenv e = False"

text \<open>
  The exit status of the process: a command that returns ends the process with status 0,
  \<open>sys.exit(n)\<close> ends it with \<open>n\<close>; the status after an uncaught exception is left
  open.
\<close>

fun exit_code :: "outcome \<Rightarrow> int option" where
  "exit_code Returned = Some 0"
| "exit_code (SystemExit n) = Some n"
| "exit_code (Raised e) = None"
| "exit_code PipelineDidNotReturn = None"

text \<open>The configuration and the environment that lines 36 and 37 leave behind.\<close>

definition prepared_configuration :: "world \<Rightarrow> args \<Rightarrow> environment \<Rightarrow> configuration" where
  "prepared_configuration w a env = fst (prepare_configuration w a (handle_output_level w a env))"

definition prepared_environ :: "world \<Rightarrow> args \<Rightarrow> environment \<Rightarrow> environment" where
  "prepared_environ w a env = snd (prepare_configuration w a (handle_output_level w a env))"

definition setup_calls :: "event list" where
  "setup_calls =
     [Uuid4, GetConfig, HandleOutputLevel, PrepareConfiguration,
      CfgGet ''report'' ''answerfile'', CfgGet ''report'' ''userchoices'']"

definition report_calls :: "world \<Rightarrow> string \<Rightarrow> run_result \<Rightarrow> event list" where
  "report_calls w ctx r =
     [SaveAnswers (answerfile_path w) (userchoices_path w), ReportErrors (errors r),
      ReportInhibitors ctx, GenerateReportFiles ctx, GetCfgFiles ''report'', GetCfgFiles ''logs'',
      ReportInfo (get_cfg_files w ''report'') (get_cfg_files w ''logs'') (answerfile_path w)
        (failure r)]"

fun is_store :: "event \<Rightarrow> bool" where
  "is_store (ExecutionStore ctx kind conf) = True"
| "is_store e = False"

definition before_restore :: "string \<Rightarrow> event list \<Rightarrow> event list" where
  "before_restore ctx es = takeWhile (\<lambda>e. e \<noteq> RestoreLeappEnvVars ctx) es"

definition from_restore :: "string \<Rightarrow> event list \<Rightarrow> event list" where
  "from_restore ctx es = dropWhile (\<lambda>e. e \<noteq> RestoreLeappEnvVars ctx) es"

text \<open>
  The calls of the parts of the command, written out: of lines 54 to 59, of lines 76 to
  87, of lines 67 to 99, of everything before line 67 on each path, and of lines 67 to
  85.
\<close>

definition output_level_calls :: "world \<Rightarrow> configuration \<Rightarrow> environment \<Rightarrow> event list" where
  "output_level_calls w conf env =
     (if check_env_and_conf w ''LEAPP_DEBUG'' ''debug'' conf env
      then [CheckEnvAndConf ''LEAPP_DEBUG'' ''debug'', SetEnv ''LEAPP_DEBUG'' ''1'',
            SetEnv ''LEAPP_VERBOSE'' ''1'']
      else [CheckEnvAndConf ''LEAPP_DEBUG'' ''debug'', SetEnv ''LEAPP_DEBUG'' ''0'',
            CheckEnvAndConf ''LEAPP_VERBOSE'' ''verbose'',
            SetEnv ''LEAPP_VERBOSE''
              (if check_env_and_conf w ''LEAPP_VERBOSE'' ''verbose'' conf
                    (env(''LEAPP_DEBUG'' \<mapsto> ''0''))
               then ''1'' else ''0'')])"

definition pipeline_calls :: "world \<Rightarrow> args \<Rightarrow> string \<Rightarrow> string option \<Rightarrow> event list" where
  "pipeline_calls w a ctx skip_phases_until =
     [LookupWorkflow ''IPUWorkflow'' (reboot a), ProcessWhitelistExperimental, WarnIfUnsupported,
      LoadAnswers (answerfile_path w) (userchoices_path w),
      SetEnv ''LC_ALL'' ''en_US.UTF-8'', SetEnv ''LANG'' ''en_US.UTF-8'',
      WorkflowRun ctx skip_phases_until True (only_with_tags a)]"

definition run_calls :: "world \<Rightarrow> args \<Rightarrow> string \<Rightarrow> string option \<Rightarrow> event list" where
  "run_calls w a ctx skip_phases_until =
     [ConfigureLogger ''leapp-upgrade.log'', SetEnv ''LEAPP_EXECUTION_ID'' ctx, LoadRepositories] @
     (case load_repositories w of
        Some message \<Rightarrow> []
      | None \<Rightarrow>
          pipeline_calls w a ctx skip_phases_until @
          (case workflow_run w ctx skip_phases_until (only_with_tags a) of
             None \<Rightarrow> []
           | Some r \<Rightarrow> report_calls w ctx r))"

definition path_calls :: "world \<Rightarrow> args \<Rightarrow> environment \<Rightarrow> execution list \<Rightarrow> string \<Rightarrow> event list" where
  "path_calls w a env store ctx =
     (if resume a
      then setup_calls @ [GetUid, FetchLastUpgradeContext (resume_context a)] @
           output_level_calls w (snd (fetch_last_upgrade_context w (resume_context a) store))
             (prepared_environ w a env) @
           [RestoreLeappEnvVars ctx, GetLastPhase ctx]
      else setup_calls @
           [GetUid, ExecutionStore ctx ''upgrade'' (prepared_configuration w a env),
            ArchiveLogfiles])"

definition launch_calls :: "world \<Rightarrow> args \<Rightarrow> string \<Rightarrow> event list" where
  "launch_calls w a ctx =
     [ConfigureLogger ''leapp-upgrade.log'', SetEnv ''LEAPP_EXECUTION_ID'' ctx, LoadRepositories,
      LookupWorkflow ''IPUWorkflow'' (reboot a), ProcessWhitelistExperimental, WarnIfUnsupported,
      LoadAnswers (answerfile_path w) (userchoices_path w),
      SetEnv ''LC_ALL'' ''en_US.UTF-8'', SetEnv ''LANG'' ''en_US.UTF-8'']"

section \<open>The MySQL repository setup (clmysqlrepositorysetup.py)\<close>

text \<open>
  \<open>process()\<close> scans the repository files of \<open>REPO_DIR\<close>, rewrites the repositories of
  the files that belong to MySQL or MariaDB, and produces messages. The model returns
  what the function produced, in order, or the exception that leaves it. Writes to the
  logger are left out. The file system, the parser of repository files, the
  constants of \<open>cl_repofileutils\<close> and the helpers of \<open>clmysql\<close> are not in the
  sources: they are the fields of the record \<open>repo_host\<close>.
\<close>

subsection \<open>Python's string operations\<close>

text \<open>\<open>s.startswith(p)\<close>, \<open>s.endswith(p)\<close> and \<open>sub in s\<close>.\<close>

definition startswith :: "string \<Rightarrow> string \<Rightarrow> bool" where
  "startswith s p = (take (length p) s = p)"

definition endswith :: "string \<Rightarrow> string \<Rightarrow> bool" where
  "endswith s p = (length p \<le> length s \<and> drop (length s - length p) s = p)"

fun contains :: "string \<Rightarrow> string \<Rightarrow> bool" where
  "contains [] sub = (sub = [])"
| "contains (c # cs) sub = (startswith (c # cs) sub \<or> contains cs sub)"

text \<open>
  \<open>s.split(sep)\<close> for a separator that is not empty (the source splits at \<open>'yum'\<close> and
  at \<open>':'\<close>): the text is read from the left, \<open>n\<close> counts the characters of a
  separator still to be skipped, \<open>piece\<close> is the piece read so far.
\<close>

fun split_scan :: "string \<Rightarrow> nat \<Rightarrow> string \<Rightarrow> string \<Rightarrow> string list" where
  "split_scan sep n piece [] = [piece]"
| "split_scan sep (Suc n) piece (c # cs) = split_scan sep n piece cs"
| "split_scan sep 0 piece (c # cs) =
     (if startswith (c # cs) sep then piece # split_scan sep (length sep - 1) [] cs
      else split_scan sep 0 (piece @ [c]) cs)"

definition py_split :: "string \<Rightarrow> string \<Rightarrow> string list" where
  "py_split s sep = split_scan sep 0 [] s"

text \<open>\<open>sep.join(pieces)\<close>\<close>

fun py_join :: "string \<Rightarrow> string list \<Rightarrow> string" where
  "py_join sep [] = []"
| "py_join sep [p] = p"
| "py_join sep (p # q # ps) = p @ sep @ py_join sep (q # ps)"

text \<open>
  \<open>s.replace(old, new)\<close> for a pattern that is not empty replaces the occurrences found
  from the left, which are the separators \<open>split\<close> finds.
\<close>

definition py_replace :: "string \<Rightarrow> string \<Rightarrow> string \<Rightarrow> string" where
  "py_replace s old new = py_join new (py_split s old)"

text \<open>\<open>s[:-n]\<close>: for \<open>n = 0\<close> the slice \<open>s[:0]\<close> is empty.\<close>

definition slice_to_minus :: "string \<Rightarrow> nat \<Rightarrow> string" where
  "slice_to_minus s n = (if n = 0 then [] else take (length s - n) s)"

text \<open>\<open>os.path.join(a, b)\<close> of \<open>posixpath\<close>.\<close>

definition path_join :: "string \<Rightarrow> string \<Rightarrow> string" where
  "path_join a b =
     (if startswith b ''/'' then b
      else if a = [] \<or> endswith a ''/'' then a @ b
      else a @ ''/'' @ b)"

subsection \<open>Data\<close>

text \<open>The fields of \<open>RepositoryData\<close> that \<open>process\<close> reads and writes.\<close>

record repository_data =
  repoid :: string
  name :: string
  baseurl :: string
  enabled :: bool

text \<open>
  The messages \<open>process\<close> produces. \<open>CustomTargetRepository\<close> carries repoid, name,
  baseurl and enabled; \<open>RpmTransactionTasks\<close> carries \<open>to_upgrade\<close> and the modules to
  enable, each a name and a stream; \<open>InstalledMySqlTypes\<close> carries the types and the
  version.
\<close>

datatype message =
    CustomTargetRepositoryFile string
  | CustomTargetRepository string string string bool
  | RpmTransactionTasks "string list" "(string \<times> string) list"
  | InstalledMySqlTypes "string list" "string option"

text \<open>What the actor hands out: \<open>api.produce(message)\<close> or \<open>reporting.create_report\<close> (by its title).\<close>

datatype actor_output = Produce message | CreateReport string

datatype py_error = IndexError | ValueError

record repo_host =
  listdir :: "string list"
  parse_repofile :: "string \<Rightarrow> repository_data list"
  create_leapp_repofile_copy :: "repository_data list \<Rightarrow> string \<Rightarrow> string"
  get_clmysql_type :: "string option"
  get_pkg_prefix :: "string \<Rightarrow> string option"
  MODULE_STREAMS :: "(string \<times> string) list"
  installed_rpm :: "string list list"
  REPO_DIR :: string
  LEAPP_COPY_SUFFIX :: string
  REPOFILE_SUFFIX :: string

text \<open>
  \<open>listdir\<close> is \<open>os.listdir(REPO_DIR)\<close>; \<open>parse_repofile path\<close> is the \<open>data\<close> of the
  parsed file; \<open>installed_rpm\<close> lists, for each consumed \<open>InstalledRPM\<close> message, the
  names of its items.
\<close>

definition CL_MARKERS :: "string list" where
  "CL_MARKERS = [''cl-mysql'', ''cl-mariadb'', ''cl-percona'']"

definition MARIA_MARKERS :: "string list" where
  "MARIA_MARKERS = [''MariaDB'']"

definition MYSQL_MARKERS :: "string list" where
  "MYSQL_MARKERS = [''mysql-community'']"

definition OLD_MYSQL_VERSIONS :: "string list" where
  "OLD_MYSQL_VERSIONS = [''5.7'', ''5.6'', ''5.5'']"

text \<open>
  The local variables of \<open>process\<close> and what it has handed out so far. \<open>mysql_types\<close> is
  a Python set: it is kept as a list without repetitions, a new element behind the
  others. Python lists a set in an order of its own, so of \<open>list(mysql_types)\<close> only
  the elements are meant, not their order.
\<close>

record scan =
  mysql_types :: "string list"
  clmysql_type :: "string option"
  custom_repo_msgs :: "message list"
  produced :: "actor_output list"

text \<open>\<open>mysql_types.add(t)\<close>\<close>

definition set_add :: "string \<Rightarrow> string list \<Rightarrow> string list" where
  "set_add t ts = (if t \<in> set ts then ts else ts @ [t])"

definition emit :: "actor_output \<Rightarrow> scan \<Rightarrow> scan" where
  "emit out st = st\<lparr>produced := produced st @ [out]\<rparr>"

subsection \<open>build_install_list\<close>

text \<open>\<open>if prefix:\<close> fails for \<open>None\<close> and for the empty string.\<close>

definition build_install_list :: "repo_host \<Rightarrow> string option \<Rightarrow> string list" where
  "build_install_list h prefix =
     (case prefix of
        None \<Rightarrow> []
      | Some p \<Rightarrow> if p = [] then [] else concat (map (filter (\<lambda>pkg. startswith pkg p)) (installed_rpm h)))"

subsection \<open>The loop over the repositories of one file\<close>

text \<open>
  Each branch of \<open>process\<close> loops over \<open>repofile_data.data\<close>, rewrites the repository in
  place and may add a message. A step returns the rewritten repository and the new
  state, or the exception it raises; the loop returns the rewritten list, which is what
  \<open>create_leapp_repofile_copy\<close> receives.
\<close>

fun for_repos ::
  "(repository_data \<Rightarrow> scan \<Rightarrow> py_error + repository_data \<times> scan) \<Rightarrow>
   repository_data list \<Rightarrow> scan \<Rightarrow> py_error + repository_data list \<times> scan" where
  "for_repos step [] st = Inr ([], st)"
| "for_repos step (repo # repos) st =
     (case step repo st of
        Inl e \<Rightarrow> Inl e
      | Inr (repo', st') \<Rightarrow>
          (case for_repos step repos st' of
             Inl e \<Rightarrow> Inl e
           | Inr (repos', st'') \<Rightarrow> Inr (repo' # repos', st'')))"

text \<open>Lines 77 to 92.\<close>

definition cl_step :: "repo_host \<Rightarrow> repository_data \<Rightarrow> scan \<Rightarrow> py_error + repository_data \<times> scan" where
  "cl_step h repo st =
     (let repo' = repo\<lparr>repoid := repoid repo @ ''-8'',
                       baseurl := py_replace (baseurl repo) ''/cl$releasever/'' ''/cl8/''\<rparr>
      in if enabled repo' \<or> repoid repo' = ''mysqclient-8''
         then Inr (repo', st\<lparr>clmysql_type := get_clmysql_type h,
                              custom_repo_msgs := custom_repo_msgs st @
                                [CustomTargetRepository (repoid repo') (name repo') (baseurl repo') True]\<rparr>)
         else Inr (repo', st))"

text \<open>Lines 112 to 124. \<open>url_parts[1]\<close> raises \<open>IndexError\<close> when the split gives one piece.\<close>

definition maria_step :: "repository_data \<Rightarrow> scan \<Rightarrow> py_error + repository_data \<times> scan" where
  "maria_step repo st =
     (case py_split (baseurl repo) ''yum'' of
        p0 # p1 # ps \<Rightarrow>
          (let repo' = repo\<lparr>repoid := repoid repo @ ''-8'',
                            baseurl := concat (p0 # (''yum'' @ py_replace p1 ''7'' ''8'') # ps)\<rparr>
           in if enabled repo'
              then Inr (repo', st\<lparr>custom_repo_msgs := custom_repo_msgs st @
                         [CustomTargetRepository (repoid repo') (name repo') (baseurl repo')
                            (enabled repo')]\<rparr>)
              else Inr (repo', st))
      | _ \<Rightarrow> Inl IndexError)"

text \<open>Lines 145 to 178.\<close>

definition old_mysql_title :: string where
  "old_mysql_title = ''An old MySQL version will no longer be available in EL8''"

definition mysql_step :: "repository_data \<Rightarrow> scan \<Rightarrow> py_error + repository_data \<times> scan" where
  "mysql_step repo st =
     (let repo' = repo\<lparr>repoid := repoid repo @ ''-8'',
                       baseurl := py_replace (baseurl repo) ''/el/7/'' ''/el/8/''\<rparr>
      in if enabled repo'
         then
           (let st' = (if list_ex (contains (name repo')) OLD_MYSQL_VERSIONS
                       then emit (CreateReport old_mysql_title) st else st)
            in Inr (repo', st'\<lparr>custom_repo_msgs := custom_repo_msgs st' @
                       [CustomTargetRepository (repoid repo') (name repo') (baseurl repo')
                          (enabled repo')]\<rparr>))
         else Inr (repo', st))"

text \<open>
  The end of each branch (lines 94 to 101, 126 to 135, 180 to 189): when a repository of
  the file is enabled, the type is added to \<open>mysql_types\<close> and a copy of the rewritten file
  is produced.
\<close>

definition finish_repofile ::
  "repo_host \<Rightarrow> string \<Rightarrow> string \<Rightarrow> repository_data list \<times> scan \<Rightarrow> scan" where
  "finish_repofile h mysql_type repofile_name result =
     (let repofile_data = fst result; st = snd result
      in if list_ex enabled repofile_data
         then emit (Produce (CustomTargetRepositoryFile
                               (create_leapp_repofile_copy h repofile_data repofile_name)))
                (st\<lparr>mysql_types := set_add mysql_type (mysql_types st)\<rparr>)
         else st)"

definition process_branch ::
  "repo_host \<Rightarrow> string \<Rightarrow> string \<Rightarrow>
   (repository_data \<Rightarrow> scan \<Rightarrow> py_error + repository_data \<times> scan) \<Rightarrow> string \<Rightarrow> scan \<Rightarrow>
   py_error + scan" where
  "process_branch h mysql_type repofile_name step full_repo_path st =
     (case for_repos step (parse_repofile h full_repo_path) st of
        Inl e \<Rightarrow> Inl e
      | Inr result \<Rightarrow> Inr (finish_repofile h mysql_type repofile_name result))"

text \<open>Lines 51 to 189: one turn of the loop over the directory.\<close>

definition process_repofile :: "repo_host \<Rightarrow> string \<Rightarrow> scan \<Rightarrow> py_error + scan" where
  "process_repofile h repofile_full st =
     (if endswith repofile_full (LEAPP_COPY_SUFFIX h) \<or> \<not> endswith repofile_full (REPOFILE_SUFFIX h)
      then Inr st
      else
        let repofile_name = slice_to_minus repofile_full (length (REPOFILE_SUFFIX h));
            full_repo_path = path_join (REPO_DIR h) repofile_full
        in if list_ex (contains repofile_name) CL_MARKERS
           then process_branch h ''cloudlinux'' repofile_name (cl_step h) full_repo_path st
           else if list_ex (contains repofile_name) MARIA_MARKERS
           then process_branch h ''mariadb'' repofile_name maria_step full_repo_path st
           else if list_ex (contains repofile_name) MYSQL_MARKERS
           then process_branch h ''mysql'' repofile_name mysql_step full_repo_path st
           else Inr st)"

fun process_repofiles :: "repo_host \<Rightarrow> string list \<Rightarrow> scan \<Rightarrow> py_error + scan" where
  "process_repofiles h [] st = Inr st"
| "process_repofiles h (repofile_full # rest) st =
     (case process_repofile h repofile_full st of
        Inl e \<Rightarrow> Inl e
      | Inr st' \<Rightarrow> process_repofiles h rest st')"

text \<open>Lines 191 to 227.\<close>

definition backup_title :: string where
  "backup_title = ''MySQL database backup recommended''"

definition multiple_title :: string where
  "multiple_title = ''Multpile MySQL/MariaDB versions detected''"

definition report_detected :: "scan \<Rightarrow> scan" where
  "report_detected st =
     (if length (mysql_types st) = 0 then st
      else
        let st1 = emit (CreateReport backup_title) st;
            st2 = fold (\<lambda>msg. emit (Produce msg)) (custom_repo_msgs st1) st1
        in if length (mysql_types st2) = 1 then st2
           else emit (CreateReport multiple_title) st2)"

text \<open>
  Lines 229 to 239. \<open>mod_name, mod_stream = ....split(':')\<close> raises \<open>ValueError\<close> unless
  the split gives two pieces.
\<close>

definition enable_module :: "repo_host \<Rightarrow> scan \<Rightarrow> py_error + scan" where
  "enable_module h st =
     (case clmysql_type st of
        None \<Rightarrow> Inr st
      | Some t \<Rightarrow>
          (case map_of (MODULE_STREAMS h) t of
             None \<Rightarrow> Inr st
           | Some stream \<Rightarrow>
               if ''cloudlinux'' \<in> set (mysql_types st)
               then (case py_split stream '':'' of
                       [mod_name, mod_stream] \<Rightarrow>
                         Inr (emit (Produce (RpmTransactionTasks
                                (build_install_list h (get_pkg_prefix h t))
                                [(mod_name, mod_stream)])) st)
                     | _ \<Rightarrow> Inl ValueError)
               else Inr st))"

text \<open>Lines 47 to 49.\<close>

definition initial_scan :: scan where
  "initial_scan = \<lparr>mysql_types = [], clmysql_type = None, custom_repo_msgs = [], produced = []\<rparr>"

text \<open>\<open>process()\<close>: what it hands out, in order, or the exception that leaves it.\<close>

definition process :: "repo_host \<Rightarrow> py_error + actor_output list" where
  "process h =
     (case process_repofiles h (listdir h) initial_scan of
        Inl e \<Rightarrow> Inl e
      | Inr st \<Rightarrow>
          (case enable_module h (report_detected st) of
             Inl e \<Rightarrow> Inl e
           | Inr st' \<Rightarrow>
               Inr (produced (emit (Produce (InstalledMySqlTypes (mysql_types st') (clmysql_type st'))) st'))))"

subsection \<open>A host with a MariaDB repository served from rpm.mariadb.org\<close>

definition mariadb_host :: repo_host where
  "mariadb_host =
     \<lparr>listdir = [''MariaDB.repo''],
      parse_repofile =
        (\<lambda>path. if path = ''/etc/yum.repos.d/MariaDB.repo''
                then [\<lparr>repoid = ''mariadb'', name = ''MariaDB'',
                       baseurl = ''https://rpm.mariadb.org/10.6/centos/7/x86_64'',
                       enabled = True\<rparr>]
                else []),
      create_leapp_repofile_copy = (\<lambda>repofile_data repofile_name. repofile_name @ ''_leapp_custom.repo''),
      get_clmysql_type = None,
      get_pkg_prefix = (\<lambda>t. None),
      MODULE_STREAMS = [],
      installed_rpm = [],
      REPO_DIR = ''/etc/yum.repos.d'',
      LEAPP_COPY_SUFFIX = ''_leapp_custom.repo'',
      REPOFILE_SUFFIX = ''.repo''\<rparr>"

definition archive_mariadb_host :: repo_host where
  "archive_mariadb_host =
     mariadb_host\<lparr>parse_repofile :=
        (\<lambda>path. if path = ''/etc/yum.repos.d/MariaDB.repo''
                then [\<lparr>repoid = ''mariadb'', name = ''MariaDB'',
                       baseurl = ''https://archive.mariadb.org/mariadb-10.3/yum/centos/7/x86_64'',
                       enabled = True\<rparr>]
                else [])\<rparr>"

fun is_installed_types :: "actor_output \<Rightarrow> bool" where
  "is_installed_types (Produce (InstalledMySqlTypes types version)) = True"
| "is_installed_types out = False"

fun is_custom_repo :: "message \<Rightarrow> bool" where
  "is_custom_repo (CustomTargetRepository r n b e) = True"
| "is_custom_repo m = False"

definition tidy :: "scan \<Rightarrow> bool" where
  "tidy st \<longleftrightarrow>
     list_all (\<lambda>out. \<not> is_installed_types out) (produced st) \<and>
     list_all is_custom_repo (custom_repo_msgs st) \<and>
     set (mysql_types st) \<subseteq> {''cloudlinux'', ''mariadb'', ''mysql''} \<and>
     distinct (mysql_types st)"

section \<open>The calls of the upgrade command\<close>

subsection \<open>The effect of each part of the command\<close>

lemma call_simps:
  "calls (call e s) = calls s @ [e]"
  "environ (call e s) = environ s"
  "executions (call e s) = executions s"
  by (simp_all add: call_def)

lemma setenv_simps:
  "calls (setenv k v s) = calls s @ [SetEnv k v]"
  "environ (setenv k v s) = (environ s)(k \<mapsto> v)"
  "executions (setenv k v s) = executions s"
  by (simp_all add: setenv_def call_def)

lemma run_helper_simps:
  "calls (run_helper e f s) = calls s @ [e]"
  "environ (run_helper e f s) = f (environ s)"
  "executions (run_helper e f s) = executions s"
  by (simp_all add: run_helper_def call_def)

lemma upgrade_setup_simps:
  "fst (upgrade_setup w a s) = prepared_configuration w a (environ s)"
  "calls (snd (upgrade_setup w a s)) = calls s @ setup_calls"
  "environ (snd (upgrade_setup w a s)) = prepared_environ w a (environ s)"
  "executions (snd (upgrade_setup w a s)) = executions s"
  by (simp_all add: upgrade_setup_def Let_def call_simps run_helper_simps setup_calls_def
      prepared_configuration_def prepared_environ_def)

lemma set_output_level_calls:
  "calls (set_output_level w conf s) =
     calls s @
     (if check_env_and_conf w ''LEAPP_DEBUG'' ''debug'' conf (environ s)
      then [CheckEnvAndConf ''LEAPP_DEBUG'' ''debug'', SetEnv ''LEAPP_DEBUG'' ''1'',
            SetEnv ''LEAPP_VERBOSE'' ''1'']
      else [CheckEnvAndConf ''LEAPP_DEBUG'' ''debug'', SetEnv ''LEAPP_DEBUG'' ''0'',
            CheckEnvAndConf ''LEAPP_VERBOSE'' ''verbose'',
            SetEnv ''LEAPP_VERBOSE''
              (if check_env_and_conf w ''LEAPP_VERBOSE'' ''verbose'' conf
                    ((environ s)(''LEAPP_DEBUG'' \<mapsto> ''0''))
               then ''1'' else ''0'')])"
  by (simp add: set_output_level_def Let_def call_simps setenv_simps)

lemma set_output_level_environ:
  "environ (set_output_level w conf s) =
     (environ s)
       (''LEAPP_DEBUG'' \<mapsto>
          (if check_env_and_conf w ''LEAPP_DEBUG'' ''debug'' conf (environ s) then ''1'' else ''0''),
        ''LEAPP_VERBOSE'' \<mapsto>
          (if check_env_and_conf w ''LEAPP_DEBUG'' ''debug'' conf (environ s) \<or>
              check_env_and_conf w ''LEAPP_VERBOSE'' ''verbose'' conf
                ((environ s)(''LEAPP_DEBUG'' \<mapsto> ''0''))
           then ''1'' else ''0''))"
  by (simp add: set_output_level_def Let_def call_simps setenv_simps)

lemma set_output_level_executions:
  "executions (set_output_level w conf s) = executions s"
  by (simp add: set_output_level_def Let_def call_simps setenv_simps)

lemma upgrade_report_simps:
  "fst (upgrade_report w ctx r s) = (if failure r then SystemExit 1 else Returned)"
  "calls (snd (upgrade_report w ctx r s)) = calls s @ report_calls w ctx r"
  "environ (snd (upgrade_report w ctx r s)) = environ s"
  "executions (snd (upgrade_report w ctx r s)) = executions s"
  by (simp_all add: upgrade_report_def Let_def call_simps report_calls_def)

lemma upgrade_pipeline_calls:
  "calls (snd (upgrade_pipeline w a ctx k s)) =
     calls s @ pipeline_calls w a ctx k @
     (case workflow_run w ctx k (only_with_tags a) of None \<Rightarrow> [] | Some r \<Rightarrow> report_calls w ctx r)"
  by (simp add: upgrade_pipeline_def Let_def call_simps setenv_simps upgrade_report_simps
      pipeline_calls_def split: option.split)

lemma upgrade_pipeline_fst:
  "fst (upgrade_pipeline w a ctx k s) =
     (case workflow_run w ctx k (only_with_tags a) of
        None \<Rightarrow> PipelineDidNotReturn
      | Some r \<Rightarrow> if failure r then SystemExit 1 else Returned)"
  by (simp add: upgrade_pipeline_def Let_def upgrade_report_simps split: option.split)

lemma upgrade_pipeline_state:
  "environ (snd (upgrade_pipeline w a ctx k s)) =
     (environ s)(''LC_ALL'' \<mapsto> ''en_US.UTF-8'', ''LANG'' \<mapsto> ''en_US.UTF-8'')"
  "executions (snd (upgrade_pipeline w a ctx k s)) = executions s"
  by (simp_all add: upgrade_pipeline_def Let_def call_simps setenv_simps upgrade_report_simps
      split: option.split)

lemma upgrade_run_calls:
  "calls (snd (upgrade_run w a ctx k s)) = calls s @ run_calls w a ctx k"
  by (simp add: upgrade_run_def Let_def call_simps setenv_simps upgrade_pipeline_calls
      run_calls_def split: option.split)

lemma upgrade_run_fst:
  "fst (upgrade_run w a ctx k s) =
     (case load_repositories w of
        Some message \<Rightarrow> Raised (CommandError message)
      | None \<Rightarrow>
          (case workflow_run w ctx k (only_with_tags a) of
             None \<Rightarrow> PipelineDidNotReturn
           | Some r \<Rightarrow> if failure r then SystemExit 1 else Returned))"
  by (simp add: upgrade_run_def Let_def upgrade_pipeline_fst split: option.split)

lemma upgrade_run_executions:
  "executions (snd (upgrade_run w a ctx k s)) = executions s"
  by (simp add: upgrade_run_def Let_def call_simps setenv_simps upgrade_pipeline_state
      split: option.split)

lemma upgrade_run_environ:
  "load_repositories w = None \<Longrightarrow>
   environ (snd (upgrade_run w a ctx k s)) =
     (environ s)(''LEAPP_EXECUTION_ID'' \<mapsto> ctx, ''LC_ALL'' \<mapsto> ''en_US.UTF-8'',
                 ''LANG'' \<mapsto> ''en_US.UTF-8'')"
  by (simp add: upgrade_run_def Let_def call_simps setenv_simps upgrade_pipeline_state)

lemma upgrade_run_environ_other:
  "x \<noteq> ''LEAPP_EXECUTION_ID'' \<Longrightarrow> x \<noteq> ''LC_ALL'' \<Longrightarrow> x \<noteq> ''LANG'' \<Longrightarrow>
   environ (snd (upgrade_run w a ctx k s)) x = environ s x"
  by (simp add: upgrade_run_def Let_def call_simps setenv_simps upgrade_pipeline_state
      split: option.split)

lemma upgrade_fresh_simps:
  "calls (upgrade_fresh ctx conf s) = calls s @ [ExecutionStore ctx ''upgrade'' conf, ArchiveLogfiles]"
  "environ (upgrade_fresh ctx conf s) = environ s"
  "executions (upgrade_fresh ctx conf s) =
     executions s @ [\<lparr>exec_context = ctx, exec_kind = ''upgrade'', exec_configuration = conf\<rparr>]"
  by (simp_all add: upgrade_fresh_def Let_def call_simps)

subsection \<open>The four paths through the command\<close>

lemma upgrade_not_root:
  assumes "getuid w \<noteq> 0"
  shows "fst (upgrade w a s) = Raised (CommandError root_message)"
    and "calls (snd (upgrade w a s)) = calls s @ setup_calls @ [GetUid]"
    and "environ (snd (upgrade w a s)) = prepared_environ w a (environ s)"
    and "executions (snd (upgrade w a s)) = executions s"
  using assms by (simp_all add: upgrade_def Let_def call_simps upgrade_setup_simps)

lemma upgrade_fresh_path:
  assumes "getuid w = 0" and "\<not> resume a"
  shows "upgrade w a s =
           upgrade_run w a (uuid4 w) None
             (upgrade_fresh (uuid4 w) (prepared_configuration w a (environ s))
                (call GetUid (snd (upgrade_setup w a s))))"
    and "calls (snd (upgrade w a s)) =
           calls s @ setup_calls @
           [GetUid, ExecutionStore (uuid4 w) ''upgrade'' (prepared_configuration w a (environ s)),
            ArchiveLogfiles] @
           run_calls w a (uuid4 w) None"
    and "executions (snd (upgrade w a s)) =
           executions s @
           [\<lparr>exec_context = uuid4 w, exec_kind = ''upgrade'',
             exec_configuration = prepared_configuration w a (environ s)\<rparr>]"
  using assms
  by (simp_all add: upgrade_def Let_def call_simps upgrade_setup_simps upgrade_fresh_simps
      upgrade_run_calls upgrade_run_executions)

lemma upgrade_resume_nothing:
  assumes "getuid w = 0" and "resume a"
    and "fst (fetch_last_upgrade_context w (resume_context a) (executions s)) = None \<or>
         fst (fetch_last_upgrade_context w (resume_context a) (executions s)) = Some []"
  shows "fst (upgrade w a s) = Raised (CommandError no_previous_message)"
    and "calls (snd (upgrade w a s)) =
           calls s @ setup_calls @ [GetUid, FetchLastUpgradeContext (resume_context a)]"
    and "executions (snd (upgrade w a s)) = executions s"
  using assms
  by (auto simp add: upgrade_def upgrade_resume_def Let_def call_simps upgrade_setup_simps)

lemma upgrade_resume_path:
  assumes "getuid w = 0" and "resume a"
    and "fetch_last_upgrade_context w (resume_context a) (executions s) = (Some ctx, conf)"
    and "ctx \<noteq> []"
  shows "upgrade w a s =
           upgrade_run w a ctx (get_last_phase w ctx)
             (call (GetLastPhase ctx)
                (run_helper (RestoreLeappEnvVars ctx) (restore_leapp_env_vars w ctx)
                   (set_output_level w conf
                      (call (FetchLastUpgradeContext (resume_context a))
                         (call GetUid (snd (upgrade_setup w a s)))))))"
    and "calls (snd (upgrade w a s)) =
           calls s @ setup_calls @ [GetUid, FetchLastUpgradeContext (resume_context a)] @
           output_level_calls w conf (prepared_environ w a (environ s)) @
           [RestoreLeappEnvVars ctx, GetLastPhase ctx] @
           run_calls w a ctx (get_last_phase w ctx)"
    and "executions (snd (upgrade w a s)) = executions s"
  using assms
  by (simp_all add: upgrade_def upgrade_resume_def Let_def call_simps upgrade_setup_simps
      run_helper_simps set_output_level_calls set_output_level_executions output_level_calls_def
      upgrade_run_calls upgrade_run_executions)

lemma run_in_run_calls:
  "WorkflowRun c k d t \<in> set (run_calls w a ctx skip) \<longleftrightarrow>
     load_repositories w = None \<and> c = ctx \<and> k = skip \<and> d \<and> t = only_with_tags a"
  by (auto simp add: run_calls_def pipeline_calls_def report_calls_def split: option.splits)

lemma run_not_in_output_level_calls:
  "WorkflowRun c k d t \<notin> set (output_level_calls w conf env)"
  by (simp add: output_level_calls_def)

text \<open>Whenever the pipeline is invoked, the command went down one of the two full paths.\<close>

lemma upgrade_run_reached:
  assumes "WorkflowRun c k d t \<in> set (calls (snd (upgrade w a (process_start env store))))"
  shows "getuid w = 0 \<and> load_repositories w = None \<and> d \<and> t = only_with_tags a \<and>
         (if resume a
          then fst (fetch_last_upgrade_context w (resume_context a) store) = Some c \<and> c \<noteq> [] \<and>
               k = get_last_phase w c
          else c = uuid4 w \<and> k = None)"
proof (cases "getuid w = 0")
  case False
  with assms show ?thesis
    by (simp add: upgrade_not_root(2) process_start_def setup_calls_def)
next
  case root: True
  show ?thesis
  proof (cases "resume a")
    case False
    with assms root show ?thesis
      by (simp add: upgrade_fresh_path(2) process_start_def setup_calls_def run_in_run_calls)
  next
    case True
    obtain found conf where
      fetched: "fetch_last_upgrade_context w (resume_context a) store = (found, conf)"
      by (cases "fetch_last_upgrade_context w (resume_context a) store")
    show ?thesis
    proof (cases "found = None \<or> found = Some []")
      case True
      with assms root \<open>resume a\<close> fetched show ?thesis
        by (simp add: upgrade_resume_nothing(2) process_start_def setup_calls_def)
    next
      case False
      then obtain ctx where ctx: "found = Some ctx" "ctx \<noteq> []"
        by (cases found) auto
      with assms root \<open>resume a\<close> fetched show ?thesis
        by (simp add: upgrade_resume_path(2) [where ctx = ctx and conf = conf] process_start_def
            setup_calls_def run_in_run_calls run_not_in_output_level_calls)
    qed
  qed
qed

subsection \<open>The calls of the command on the concrete host\<close>

lemma example_resume_calls:
  "calls (snd (upgrade example_world resume_args (process_start Map.empty example_store))) =
     [Uuid4, GetConfig, HandleOutputLevel, PrepareConfiguration,
      CfgGet ''report'' ''answerfile'', CfgGet ''report'' ''userchoices'', GetUid,
      FetchLastUpgradeContext None,
      CheckEnvAndConf ''LEAPP_DEBUG'' ''debug'', SetEnv ''LEAPP_DEBUG'' ''1'',
      SetEnv ''LEAPP_VERBOSE'' ''1'',
      RestoreLeappEnvVars ''abc-123'', GetLastPhase ''abc-123'',
      ConfigureLogger ''leapp-upgrade.log'', SetEnv ''LEAPP_EXECUTION_ID'' ''abc-123'',
      LoadRepositories, LookupWorkflow ''IPUWorkflow'' False, ProcessWhitelistExperimental,
      WarnIfUnsupported,
      LoadAnswers ''/var/log/leapp/answerfile'' ''/var/log/leapp/userchoices'',
      SetEnv ''LC_ALL'' ''en_US.UTF-8'', SetEnv ''LANG'' ''en_US.UTF-8'',
      WorkflowRun ''abc-123'' (Some ''Download'') True None,
      SaveAnswers ''/var/log/leapp/answerfile'' ''/var/log/leapp/userchoices'',
      ReportErrors [''e1'', ''e2''], ReportInhibitors ''abc-123'',
      GenerateReportFiles ''abc-123'', GetCfgFiles ''report'', GetCfgFiles ''logs'',
      ReportInfo [''/var/log/leapp/leapp-report.txt''] [''/var/log/leapp/leapp-logs.txt'']
        ''/var/log/leapp/answerfile'' True]"
proof -
  have fetched:
    "fetch_last_upgrade_context example_world (resume_context resume_args)
       (executions (process_start Map.empty example_store)) = (Some ''abc-123'', [(''debug'', ''1'')])"
    by (simp add: example_world_def resume_args_def fresh_args_def process_start_def
        example_store_def spec_fetch_last_upgrade_context_def matching_executions_def)
  have "getuid example_world = 0" and "resume resume_args"
    by (simp_all add: example_world_def resume_args_def)
  from upgrade_resume_path(2) [OF this fetched] show ?thesis
    by (simp add: process_start_def setup_calls_def output_level_calls_def run_calls_def
        pipeline_calls_def report_calls_def prepared_environ_def answerfile_path_def
        userchoices_path_def example_world_def resume_args_def fresh_args_def
        spec_check_env_and_conf_def spec_get_last_phase_def example_history_def)
qed

lemma example_fresh_calls:
  "calls (snd (upgrade example_world fresh_args (process_start Map.empty example_store))) =
     [Uuid4, GetConfig, HandleOutputLevel, PrepareConfiguration,
      CfgGet ''report'' ''answerfile'', CfgGet ''report'' ''userchoices'', GetUid,
      ExecutionStore ''0a1b2c3d'' ''upgrade'' [(''debug'', ''0''), (''verbose'', ''0'')],
      ArchiveLogfiles,
      ConfigureLogger ''leapp-upgrade.log'', SetEnv ''LEAPP_EXECUTION_ID'' ''0a1b2c3d'',
      LoadRepositories, LookupWorkflow ''IPUWorkflow'' False, ProcessWhitelistExperimental,
      WarnIfUnsupported,
      LoadAnswers ''/var/log/leapp/answerfile'' ''/var/log/leapp/userchoices'',
      SetEnv ''LC_ALL'' ''en_US.UTF-8'', SetEnv ''LANG'' ''en_US.UTF-8'',
      WorkflowRun ''0a1b2c3d'' None True None,
      SaveAnswers ''/var/log/leapp/answerfile'' ''/var/log/leapp/userchoices'',
      ReportErrors [''e1'', ''e2''], ReportInhibitors ''0a1b2c3d'',
      GenerateReportFiles ''0a1b2c3d'', GetCfgFiles ''report'', GetCfgFiles ''logs'',
      ReportInfo [''/var/log/leapp/leapp-report.txt''] [''/var/log/leapp/leapp-logs.txt'']
        ''/var/log/leapp/answerfile'' True]"
proof -
  have "getuid example_world = 0" and "\<not> resume fresh_args"
    by (simp_all add: example_world_def fresh_args_def)
  from upgrade_fresh_path(2) [OF this] show ?thesis
    by (simp add: process_start_def setup_calls_def run_calls_def pipeline_calls_def
        report_calls_def prepared_configuration_def answerfile_path_def userchoices_path_def
        example_world_def fresh_args_def)
qed

subsection \<open>The shape of the list of calls around the pipeline\<close>

lemma run_calls_loaded:
  "load_repositories w = None \<Longrightarrow>
   run_calls w a ctx k =
     launch_calls w a ctx @ WorkflowRun ctx k True (only_with_tags a) #
     (case workflow_run w ctx k (only_with_tags a) of None \<Rightarrow> [] | Some r \<Rightarrow> report_calls w ctx r)"
  by (simp add: run_calls_def pipeline_calls_def launch_calls_def)

lemma no_run_before_launch:
  "e \<in> set (path_calls w a env store ctx @ launch_calls w a ctx) \<Longrightarrow> \<not> is_run e"
  by (auto simp add: path_calls_def launch_calls_def setup_calls_def output_level_calls_def
      split: if_splits)

lemma upgrade_calls_around_run:
  assumes "WorkflowRun c k d t \<in> set (calls (snd (upgrade w a (process_start env store))))"
  shows "calls (snd (upgrade w a (process_start env store))) =
           (path_calls w a env store c @ launch_calls w a c) @ WorkflowRun c k d t #
           (case workflow_run w c k t of None \<Rightarrow> [] | Some r \<Rightarrow> report_calls w c r)"
proof -
  note reached = upgrade_run_reached [OF assms]
  from reached have root: "getuid w = 0" and loaded: "load_repositories w = None"
    and d: "d" and t: "t = only_with_tags a"
    by simp_all
  show ?thesis
  proof (cases "resume a")
    case False
    with reached have c: "c = uuid4 w" and k: "k = None"
      by simp_all
    have "calls (snd (upgrade w a (process_start env store))) =
        path_calls w a env store c @ run_calls w a c k"
      unfolding upgrade_fresh_path(2) [OF root False]
      using False c k by (simp add: path_calls_def process_start_def)
    then show ?thesis
      using d t by (simp add: run_calls_loaded [OF loaded])
  next
    case True
    with reached have found: "fst (fetch_last_upgrade_context w (resume_context a) store) = Some c"
      and c: "c \<noteq> []" and k: "k = get_last_phase w c"
      by simp_all
    from found have fetched: "fetch_last_upgrade_context w (resume_context a)
        (executions (process_start env store)) =
        (Some c, snd (fetch_last_upgrade_context w (resume_context a) store))"
      by (simp add: process_start_def prod_eq_iff)
    have "calls (snd (upgrade w a (process_start env store))) =
        path_calls w a env store c @ run_calls w a c k"
      unfolding upgrade_resume_path(2) [OF root True fetched c]
      using True k by (simp add: path_calls_def process_start_def)
    then show ?thesis
      using d t by (simp add: run_calls_loaded [OF loaded])
  qed
qed

lemma before_run_split:
  assumes "\<And>e. e \<in> set pre \<Longrightarrow> \<not> is_run e"
  shows "before_run (pre @ WorkflowRun c k d t # post) = pre"
  using assms by (simp add: before_run_def takeWhile_append2)

lemma after_run_split:
  assumes "\<And>e. e \<in> set pre \<Longrightarrow> \<not> is_run e"
  shows "after_run (pre @ WorkflowRun c k d t # post) = post"
  using assms by (simp add: after_run_def dropWhile_append2)

lemma upgrade_before_run:
  assumes "WorkflowRun c k d t \<in> set (calls (snd (upgrade w a (process_start env store))))"
  shows "before_run (calls (snd (upgrade w a (process_start env store)))) =
           path_calls w a env store c @ launch_calls w a c"
  unfolding upgrade_calls_around_run [OF assms]
  by (rule before_run_split) (rule no_run_before_launch)

lemma upgrade_after_run:
  assumes "WorkflowRun c k d t \<in> set (calls (snd (upgrade w a (process_start env store))))"
  shows "after_run (calls (snd (upgrade w a (process_start env store)))) =
           (case workflow_run w c k t of None \<Rightarrow> [] | Some r \<Rightarrow> report_calls w c r)"
  unfolding upgrade_calls_around_run [OF assms]
  by (rule after_run_split) (rule no_run_before_launch)

lemma written_simps:
  "written k [] = []"
  "written k (e # es) = written_by k e @ written k es"
  "written k (es @ es') = written k es @ written k es'"
  by (simp_all add: written_def)

lemma written_setup_calls: "written k setup_calls = []"
  by (simp add: setup_calls_def written_simps)

lemma written_report_calls: "written k (report_calls w ctx r) = []"
  by (simp add: report_calls_def written_simps)

lemma written_output_level_calls:
  "written ''LEAPP_DEBUG'' (output_level_calls w conf env) =
     [if check_env_and_conf w ''LEAPP_DEBUG'' ''debug'' conf env then ''1'' else ''0'']"
  "written ''LEAPP_VERBOSE'' (output_level_calls w conf env) =
     [if check_env_and_conf w ''LEAPP_DEBUG'' ''debug'' conf env \<or>
         check_env_and_conf w ''LEAPP_VERBOSE'' ''verbose'' conf (env(''LEAPP_DEBUG'' \<mapsto> ''0''))
      then ''1'' else ''0'']"
  "k \<noteq> ''LEAPP_DEBUG'' \<Longrightarrow> k \<noteq> ''LEAPP_VERBOSE'' \<Longrightarrow> written k (output_level_calls w conf env) = []"
  by (simp_all add: output_level_calls_def written_simps)

lemma written_run_calls:
  "k \<noteq> ''LEAPP_EXECUTION_ID'' \<Longrightarrow> k \<noteq> ''LC_ALL'' \<Longrightarrow> k \<noteq> ''LANG'' \<Longrightarrow>
   written k (run_calls w a ctx skip) = []"
  by (simp add: run_calls_def pipeline_calls_def written_simps written_report_calls
      split: option.split)

subsection \<open>The calls around the restore of the environment, and the assignments\<close>

lemma before_restore_split:
  assumes "RestoreLeappEnvVars ctx \<notin> set pre"
  shows "before_restore ctx (pre @ RestoreLeappEnvVars ctx # post) = pre"
    and "from_restore ctx (pre @ RestoreLeappEnvVars ctx # post) = RestoreLeappEnvVars ctx # post"
proof -
  from assms have "\<And>e. e \<in> set pre \<Longrightarrow> e \<noteq> RestoreLeappEnvVars ctx"
    by auto
  then show "before_restore ctx (pre @ RestoreLeappEnvVars ctx # post) = pre"
    and "from_restore ctx (pre @ RestoreLeappEnvVars ctx # post) = RestoreLeappEnvVars ctx # post"
    by (simp_all add: before_restore_def from_restore_def takeWhile_append2 dropWhile_append2)
qed

lemma upgrade_calls_around_restore:
  assumes "resume a" and "getuid w = 0"
    and "fetch_last_upgrade_context w (resume_context a) store = (Some ctx, conf)"
    and "ctx \<noteq> []"
  shows "calls (snd (upgrade w a (process_start env store))) =
           (setup_calls @ [GetUid, FetchLastUpgradeContext (resume_context a)] @
            output_level_calls w conf (prepared_environ w a env)) @
           RestoreLeappEnvVars ctx # (GetLastPhase ctx # run_calls w a ctx (get_last_phase w ctx))"
proof -
  have fetched: "fetch_last_upgrade_context w (resume_context a)
      (executions (process_start env store)) = (Some ctx, conf)"
    using assms(3) by (simp add: process_start_def)
  show ?thesis
    unfolding upgrade_resume_path(2) [OF assms(2) assms(1) fetched assms(4)]
    by (simp add: process_start_def)
qed

lemma no_restore_before_output_level:
  "RestoreLeappEnvVars ctx \<notin>
     set (setup_calls @ [GetUid, FetchLastUpgradeContext rc] @ output_level_calls w conf env)"
  by (simp add: setup_calls_def output_level_calls_def)

lemma written_path_calls:
  "k \<noteq> ''LEAPP_DEBUG'' \<Longrightarrow> k \<noteq> ''LEAPP_VERBOSE'' \<Longrightarrow> written k (path_calls w a env store ctx) = []"
  by (simp add: path_calls_def written_simps written_setup_calls written_output_level_calls)

lemma written_launch_calls:
  "written ''LEAPP_EXECUTION_ID'' (launch_calls w a ctx) = [ctx]"
  "written ''LC_ALL'' (launch_calls w a ctx) = [''en_US.UTF-8'']"
  "written ''LANG'' (launch_calls w a ctx) = [''en_US.UTF-8'']"
  by (simp_all add: launch_calls_def written_simps)

lemma no_setenv_in_report_calls: "filter is_setenv (report_calls w ctx r) = []"
  by (simp add: report_calls_def)

lemma upgrade_environ_when_run:
  assumes "WorkflowRun c k d t \<in> set (calls (snd (upgrade w a (process_start env store))))"
  shows "environ (snd (upgrade w a (process_start env store))) ''LEAPP_EXECUTION_ID'' = Some c"
    and "environ (snd (upgrade w a (process_start env store))) ''LC_ALL'' = Some ''en_US.UTF-8''"
    and "environ (snd (upgrade w a (process_start env store))) ''LANG'' = Some ''en_US.UTF-8''"
proof -
  note reached = upgrade_run_reached [OF assms]
  from reached have root: "getuid w = 0" and loaded: "load_repositories w = None"
    by simp_all
  have "\<exists>s. upgrade w a (process_start env store) = upgrade_run w a c k s"
  proof (cases "resume a")
    case False
    with reached have "c = uuid4 w" and "k = None"
      by simp_all
    then show ?thesis
      using upgrade_fresh_path(1) [OF root False, of "process_start env store"] by auto
  next
    case True
    with reached have found: "fst (fetch_last_upgrade_context w (resume_context a) store) = Some c"
      and c: "c \<noteq> []" and k: "k = get_last_phase w c"
      by simp_all
    from found have fetched: "fetch_last_upgrade_context w (resume_context a)
        (executions (process_start env store)) =
        (Some c, snd (fetch_last_upgrade_context w (resume_context a) store))"
      by (simp add: process_start_def prod_eq_iff)
    show ?thesis
      using upgrade_resume_path(1) [OF root True fetched c] k by auto
  qed
  then obtain s where "upgrade w a (process_start env store) = upgrade_run w a c k s" ..
  then show "environ (snd (upgrade w a (process_start env store))) ''LEAPP_EXECUTION_ID'' = Some c"
    and "environ (snd (upgrade w a (process_start env store))) ''LC_ALL'' = Some ''en_US.UTF-8''"
    and "environ (snd (upgrade w a (process_start env store))) ''LANG'' = Some ''en_US.UTF-8''"
    by (simp_all add: upgrade_run_environ [OF loaded])
qed

section \<open>Properties of the upgrade command\<close>

text \<open>
  C1. Whenever the command invokes the pipeline, \<open>skip_phases_until\<close> is decided by the
  path: on a resumed invocation the context is the one that
  \<open>fetch_last_upgrade_context\<close> returned and the marker is what \<open>get_last_phase\<close>
  reports for that context, the last phase recorded as completed (or no marker), never
  another phase; on a fresh invocation there is no marker.
\<close>

theorem skip_phases_until_is_last_completed_phase:
  assumes "WorkflowRun c k d t \<in> set (calls (snd (upgrade w a (process_start env store))))"
  shows "if resume a
         then fst (fetch_last_upgrade_context w (resume_context a) store) = Some c \<and>
              k = get_last_phase w c
         else k = None"
  using upgrade_run_reached [OF assms] by (simp split: if_splits)

theorem skip_phases_until_is_last_completed_phase_witness:
  "WorkflowRun ''abc-123'' (Some ''Download'') True None
     \<in> set (calls (snd (upgrade example_world resume_args (process_start Map.empty example_store)))) \<and>
   resume resume_args \<and>
   fst (fetch_last_upgrade_context example_world (resume_context resume_args) example_store)
     = Some ''abc-123'' \<and>
   Some ''Download'' = get_last_phase example_world ''abc-123'' \<and>
   spec_get_last_phase example_history ''abc-123'' = Some ''Download'' \<and>
   \<not> resume fresh_args \<and>
   WorkflowRun ''0a1b2c3d'' None True None
     \<in> set (calls (snd (upgrade example_world fresh_args (process_start Map.empty example_store))))"
proof -
  have run: "WorkflowRun ''abc-123'' (Some ''Download'') True None
      \<in> set (calls (snd (upgrade example_world resume_args (process_start Map.empty example_store))))"
    by (simp add: example_resume_calls)
  have fresh_run: "WorkflowRun ''0a1b2c3d'' None True None
      \<in> set (calls (snd (upgrade example_world fresh_args (process_start Map.empty example_store))))"
    by (simp add: example_fresh_calls)
  have "resume resume_args" and "\<not> resume fresh_args"
    by (simp_all add: resume_args_def fresh_args_def)
  with skip_phases_until_is_last_completed_phase [OF run]
    skip_phases_until_is_last_completed_phase [OF fresh_run] run fresh_run
  show ?thesis
    by (simp add: spec_get_last_phase_def example_history_def)
qed

text \<open>
  C2. On a fresh invocation that invokes the pipeline, the execution record with the
  generated context, kind \<open>upgrade\<close> and the prepared configuration has been stored
  before the first \<open>workflow.run\<close>: the store is among the calls that precede the run,
  the run carries the same context, and the record is the one added to the stored
  executions.
\<close>

theorem fresh_execution_stored_before_run:
  assumes "\<not> resume a"
    and "WorkflowRun c k d t \<in> set (calls (snd (upgrade w a (process_start env store))))"
  shows "ExecutionStore (uuid4 w) ''upgrade'' (prepared_configuration w a env)
           \<in> set (before_run (calls (snd (upgrade w a (process_start env store))))) \<and>
         c = uuid4 w \<and>
         executions (snd (upgrade w a (process_start env store))) =
           store @ [\<lparr>exec_context = uuid4 w, exec_kind = ''upgrade'',
                     exec_configuration = prepared_configuration w a env\<rparr>]"
proof -
  from upgrade_run_reached [OF assms(2)] assms(1)
  have root: "getuid w = 0" and loaded: "load_repositories w = None" and c: "c = uuid4 w"
    by simp_all
  show ?thesis
    using c loaded
    by (simp add: upgrade_fresh_path(2,3) [OF root assms(1)] process_start_def before_run_def
        setup_calls_def run_calls_def pipeline_calls_def)
qed

theorem fresh_execution_stored_before_run_witness:
  "\<not> resume fresh_args \<and>
   WorkflowRun ''0a1b2c3d'' None True None
     \<in> set (calls (snd (upgrade example_world fresh_args (process_start Map.empty example_store)))) \<and>
   ExecutionStore ''0a1b2c3d'' ''upgrade'' [(''debug'', ''0''), (''verbose'', ''0'')]
     \<in> set (before_run
              (calls (snd (upgrade example_world fresh_args (process_start Map.empty example_store))))) \<and>
   executions (snd (upgrade example_world fresh_args (process_start Map.empty example_store))) =
     example_store @
     [\<lparr>exec_context = ''0a1b2c3d'', exec_kind = ''upgrade'',
       exec_configuration = [(''debug'', ''0''), (''verbose'', ''0'')]\<rparr>]"
proof -
  have fresh: "\<not> resume fresh_args"
    by (simp add: fresh_args_def)
  have run: "WorkflowRun ''0a1b2c3d'' None True None
      \<in> set (calls (snd (upgrade example_world fresh_args (process_start Map.empty example_store))))"
    by (simp add: example_fresh_calls)
  have conf: "prepared_configuration example_world fresh_args Map.empty =
      [(''debug'', ''0''), (''verbose'', ''0'')]"
    by (simp add: prepared_configuration_def example_world_def fresh_args_def)
  have id: "uuid4 example_world = ''0a1b2c3d''"
    by (simp add: example_world_def)
  from fresh_execution_stored_before_run [OF fresh run] fresh run show ?thesis
    by (simp only: conf id) simp
qed

text \<open>
  C3. A privileged invocation with \<open>--resume\<close> for which the lookup of the last
  execution returns no context raises the \<open>CommandError\<close> "No previous upgrade run to
  continue ...". Up to then the command has only prepared its configuration, checked
  the uid and looked the execution up: it has stored no execution, has not invoked the
  pipeline, and the stored executions are unchanged.
\<close>

theorem resume_without_execution_raises:
  assumes "resume a" and "getuid w = 0"
    and "fst (fetch_last_upgrade_context w (resume_context a) store) = None \<or>
         fst (fetch_last_upgrade_context w (resume_context a) store) = Some []"
  shows "fst (upgrade w a (process_start env store)) = Raised (CommandError no_previous_message) \<and>
         calls (snd (upgrade w a (process_start env store))) =
           [Uuid4, GetConfig, HandleOutputLevel, PrepareConfiguration,
            CfgGet ''report'' ''answerfile'', CfgGet ''report'' ''userchoices'', GetUid,
            FetchLastUpgradeContext (resume_context a)] \<and>
         filter is_run (calls (snd (upgrade w a (process_start env store)))) = [] \<and>
         filter is_store (calls (snd (upgrade w a (process_start env store)))) = [] \<and>
         executions (snd (upgrade w a (process_start env store))) = store"
proof -
  have found: "fst (fetch_last_upgrade_context w (resume_context a)
                      (executions (process_start env store))) = None \<or>
               fst (fetch_last_upgrade_context w (resume_context a)
                      (executions (process_start env store))) = Some []"
    using assms(3) by (simp add: process_start_def)
  note path = upgrade_resume_nothing [OF assms(2) assms(1) found]
  show ?thesis
    by (simp add: path) (simp add: process_start_def setup_calls_def)
qed

theorem resume_without_execution_raises_witness:
  "resume resume_args \<and> getuid example_world = 0 \<and>
   fst (fetch_last_upgrade_context example_world (resume_context resume_args) []) = None \<and>
   fst (upgrade example_world resume_args (process_start Map.empty [])) =
     Raised (CommandError no_previous_message) \<and>
   filter is_run (calls (snd (upgrade example_world resume_args (process_start Map.empty [])))) = [] \<and>
   filter is_store (calls (snd (upgrade example_world resume_args (process_start Map.empty [])))) = [] \<and>
   executions (snd (upgrade example_world resume_args (process_start Map.empty []))) = []"
proof -
  have r: "resume resume_args" and u: "getuid example_world = 0"
    by (simp_all add: resume_args_def example_world_def)
  have n: "fst (fetch_last_upgrade_context example_world (resume_context resume_args) []) = None"
    by (simp add: example_world_def spec_fetch_last_upgrade_context_def matching_executions_def
        resume_args_def fresh_args_def)
  from resume_without_execution_raises [OF r u disjI1, OF n, where env = Map.empty] r u n
  show ?thesis
    by simp
qed

text \<open>
  C4. On a resumed invocation with a found execution, the command assigns
  \<open>LEAPP_DEBUG\<close> exactly once, \<open>'1'\<close> when \<open>check_env_and_conf\<close> finds debug enabled in
  the environment or the stored configuration and \<open>'0'\<close> otherwise, and assigns
  \<open>LEAPP_VERBOSE\<close> exactly once, \<open>'1'\<close> when debug is enabled or \<open>check_env_and_conf\<close>
  finds verbose enabled and \<open>'0'\<close> otherwise. Debug enabled gives verbose \<open>'1'\<close>. The
  assignments are made in \<open>os.environ\<close>: lines 54 to 59 leave the environment with
  the two variables at these values (from any state), and the two variables the command
  ends with are the ones \<open>restore_leapp_env_vars\<close> hands back when it is given that
  environment.
\<close>

theorem resume_sets_debug_and_verbose:
  assumes "resume a" and "getuid w = 0"
    and "fetch_last_upgrade_context w (resume_context a) store = (Some ctx, conf)"
    and "ctx \<noteq> []"
  shows "written ''LEAPP_DEBUG'' (calls (snd (upgrade w a (process_start env store)))) =
           [if check_env_and_conf w ''LEAPP_DEBUG'' ''debug'' conf (prepared_environ w a env)
            then ''1'' else ''0''] \<and>
         written ''LEAPP_VERBOSE'' (calls (snd (upgrade w a (process_start env store)))) =
           [if check_env_and_conf w ''LEAPP_DEBUG'' ''debug'' conf (prepared_environ w a env) \<or>
               check_env_and_conf w ''LEAPP_VERBOSE'' ''verbose'' conf
                 ((prepared_environ w a env)(''LEAPP_DEBUG'' \<mapsto> ''0''))
            then ''1'' else ''0''] \<and>
         environ (set_output_level w conf s) =
           (environ s)
             (''LEAPP_DEBUG'' \<mapsto>
                (if check_env_and_conf w ''LEAPP_DEBUG'' ''debug'' conf (environ s)
                 then ''1'' else ''0''),
              ''LEAPP_VERBOSE'' \<mapsto>
                (if check_env_and_conf w ''LEAPP_DEBUG'' ''debug'' conf (environ s) \<or>
                    check_env_and_conf w ''LEAPP_VERBOSE'' ''verbose'' conf
                      ((environ s)(''LEAPP_DEBUG'' \<mapsto> ''0''))
                 then ''1'' else ''0'')) \<and>
         (\<forall>x. x = ''LEAPP_DEBUG'' \<or> x = ''LEAPP_VERBOSE'' \<longrightarrow>
            environ (snd (upgrade w a (process_start env store))) x =
              restore_leapp_env_vars w ctx
                ((prepared_environ w a env)
                   (''LEAPP_DEBUG'' \<mapsto>
                      (if check_env_and_conf w ''LEAPP_DEBUG'' ''debug'' conf
                            (prepared_environ w a env)
                       then ''1'' else ''0''),
                    ''LEAPP_VERBOSE'' \<mapsto>
                      (if check_env_and_conf w ''LEAPP_DEBUG'' ''debug'' conf
                            (prepared_environ w a env) \<or>
                          check_env_and_conf w ''LEAPP_VERBOSE'' ''verbose'' conf
                            ((prepared_environ w a env)(''LEAPP_DEBUG'' \<mapsto> ''0''))
                       then ''1'' else ''0''))) x)"
proof -
  have fetched: "fetch_last_upgrade_context w (resume_context a)
      (executions (process_start env store)) = (Some ctx, conf)"
    using assms(3) by (simp add: process_start_def)
  note path = upgrade_resume_path [OF assms(2) assms(1) fetched assms(4)]
  have log: "written ''LEAPP_DEBUG'' (calls (snd (upgrade w a (process_start env store)))) =
           [if check_env_and_conf w ''LEAPP_DEBUG'' ''debug'' conf (prepared_environ w a env)
            then ''1'' else ''0''] \<and>
         written ''LEAPP_VERBOSE'' (calls (snd (upgrade w a (process_start env store)))) =
           [if check_env_and_conf w ''LEAPP_DEBUG'' ''debug'' conf (prepared_environ w a env) \<or>
               check_env_and_conf w ''LEAPP_VERBOSE'' ''verbose'' conf
                 ((prepared_environ w a env)(''LEAPP_DEBUG'' \<mapsto> ''0''))
            then ''1'' else ''0'']"
    unfolding path(2)
    by (simp add: process_start_def written_simps written_setup_calls
        written_output_level_calls written_run_calls)
  have final: "environ (snd (upgrade w a (process_start env store))) x =
      restore_leapp_env_vars w ctx
        ((prepared_environ w a env)
           (''LEAPP_DEBUG'' \<mapsto>
              (if check_env_and_conf w ''LEAPP_DEBUG'' ''debug'' conf (prepared_environ w a env)
               then ''1'' else ''0''),
            ''LEAPP_VERBOSE'' \<mapsto>
              (if check_env_and_conf w ''LEAPP_DEBUG'' ''debug'' conf (prepared_environ w a env) \<or>
                  check_env_and_conf w ''LEAPP_VERBOSE'' ''verbose'' conf
                    ((prepared_environ w a env)(''LEAPP_DEBUG'' \<mapsto> ''0''))
               then ''1'' else ''0''))) x"
    if "x = ''LEAPP_DEBUG'' \<or> x = ''LEAPP_VERBOSE''" for x
  proof -
    from that have "x \<noteq> ''LEAPP_EXECUTION_ID''" and "x \<noteq> ''LC_ALL''" and "x \<noteq> ''LANG''"
      by auto
    then show ?thesis
      unfolding path(1)
      by (simp add: upgrade_run_environ_other call_simps run_helper_simps
          set_output_level_environ upgrade_setup_simps process_start_def)
  qed
  from log final show ?thesis
    by (simp only: set_output_level_environ) blast
qed

theorem resume_sets_debug_and_verbose_witness:
  "resume resume_args \<and> getuid example_world = 0 \<and>
   fetch_last_upgrade_context example_world (resume_context resume_args) example_store =
     (Some ''abc-123'', [(''debug'', ''1'')]) \<and>
   written ''LEAPP_DEBUG''
     (calls (snd (upgrade example_world resume_args (process_start Map.empty example_store)))) = [''1''] \<and>
   written ''LEAPP_VERBOSE''
     (calls (snd (upgrade example_world resume_args (process_start Map.empty example_store)))) = [''1''] \<and>
   fetch_last_upgrade_context example_world (resume_context resume_args) verbose_store =
     (Some ''abc-123'', [(''debug'', ''0''), (''verbose'', ''1'')]) \<and>
   written ''LEAPP_DEBUG''
     (calls (snd (upgrade example_world resume_args (process_start Map.empty verbose_store)))) = [''0''] \<and>
   written ''LEAPP_VERBOSE''
     (calls (snd (upgrade example_world resume_args (process_start Map.empty verbose_store)))) = [''1''] \<and>
   environ (snd (upgrade example_world resume_args (process_start Map.empty example_store)))
     ''LEAPP_DEBUG'' = Some ''1'' \<and>
   environ (snd (upgrade example_world resume_args (process_start Map.empty example_store)))
     ''LEAPP_VERBOSE'' = Some ''1'' \<and>
   environ (snd (upgrade example_world resume_args (process_start Map.empty verbose_store)))
     ''LEAPP_DEBUG'' = Some ''0'' \<and>
   environ (snd (upgrade example_world resume_args (process_start Map.empty verbose_store)))
     ''LEAPP_VERBOSE'' = Some ''1''"
proof -
  have r: "resume resume_args" and u: "getuid example_world = 0"
    by (simp_all add: resume_args_def example_world_def)
  have f: "fetch_last_upgrade_context example_world (resume_context resume_args) example_store =
      (Some ''abc-123'', [(''debug'', ''1'')])"
    by (simp add: example_world_def resume_args_def fresh_args_def example_store_def
        spec_fetch_last_upgrade_context_def matching_executions_def)
  have c: "check_env_and_conf example_world ''LEAPP_DEBUG'' ''debug'' [(''debug'', ''1'')]
      (prepared_environ example_world resume_args Map.empty)"
    by (simp add: example_world_def spec_check_env_and_conf_def)
  have f': "fetch_last_upgrade_context example_world (resume_context resume_args) verbose_store =
      (Some ''abc-123'', [(''debug'', ''0''), (''verbose'', ''1'')])"
    by (simp add: example_world_def resume_args_def fresh_args_def verbose_store_def
        spec_fetch_last_upgrade_context_def matching_executions_def)
  have c': "\<not> check_env_and_conf example_world ''LEAPP_DEBUG'' ''debug''
        [(''debug'', ''0''), (''verbose'', ''1'')]
        (prepared_environ example_world resume_args Map.empty)"
    and v': "check_env_and_conf example_world ''LEAPP_VERBOSE'' ''verbose''
        [(''debug'', ''0''), (''verbose'', ''1'')]
        ((prepared_environ example_world resume_args Map.empty)(''LEAPP_DEBUG'' \<mapsto> ''0''))"
    by (simp_all add: example_world_def spec_check_env_and_conf_def prepared_environ_def)
  have restore: "restore_leapp_env_vars example_world ''abc-123'' e x = e x"
    if "x = ''LEAPP_DEBUG'' \<or> x = ''LEAPP_VERBOSE''" for e x
    using that
    by (auto simp add: example_world_def spec_restore_leapp_env_vars_def example_snapshots_def
        map_add_def)
  from resume_sets_debug_and_verbose [OF r u f, where env = Map.empty]
    resume_sets_debug_and_verbose [OF r u f', where env = Map.empty] r u f c f' c' v'
  show ?thesis
    by (simp add: restore)
qed

text \<open>
  C5. Whenever the pipeline has been invoked and \<open>workflow.run\<close> returns, whatever it
  reports, the calls of the command after the run are exactly: save the answers to the
  answerfile, report the errors, report the inhibitors, generate the report files, read
  the report and log file paths, and print the summary with the failure flag.
\<close>

theorem answers_saved_and_report_emitted:
  assumes "WorkflowRun c k d t \<in> set (calls (snd (upgrade w a (process_start env store))))"
    and "workflow_run w c k t = Some r"
  shows "after_run (calls (snd (upgrade w a (process_start env store)))) =
           [SaveAnswers (answerfile_path w) (userchoices_path w), ReportErrors (errors r),
            ReportInhibitors c, GenerateReportFiles c, GetCfgFiles ''report'', GetCfgFiles ''logs'',
            ReportInfo (get_cfg_files w ''report'') (get_cfg_files w ''logs'') (answerfile_path w)
              (failure r)]"
  using assms(2) by (simp add: upgrade_after_run [OF assms(1)] report_calls_def)

theorem answers_saved_and_report_emitted_witness:
  "WorkflowRun ''0a1b2c3d'' None True None
     \<in> set (calls (snd (upgrade example_world fresh_args (process_start Map.empty example_store)))) \<and>
   workflow_run example_world ''0a1b2c3d'' None None = Some \<lparr>errors = [''e1'', ''e2''], failure = True\<rparr> \<and>
   after_run (calls (snd (upgrade example_world fresh_args (process_start Map.empty example_store)))) =
     [SaveAnswers ''/var/log/leapp/answerfile'' ''/var/log/leapp/userchoices'',
      ReportErrors [''e1'', ''e2''], ReportInhibitors ''0a1b2c3d'',
      GenerateReportFiles ''0a1b2c3d'', GetCfgFiles ''report'', GetCfgFiles ''logs'',
      ReportInfo [''/var/log/leapp/leapp-report.txt''] [''/var/log/leapp/leapp-logs.txt'']
        ''/var/log/leapp/answerfile'' True]"
proof -
  have run: "WorkflowRun ''0a1b2c3d'' None True None
      \<in> set (calls (snd (upgrade example_world fresh_args (process_start Map.empty example_store))))"
    by (simp add: example_fresh_calls)
  have ret: "workflow_run example_world ''0a1b2c3d'' None None =
      Some \<lparr>errors = [''e1'', ''e2''], failure = True\<rparr>"
    by (simp add: example_world_def)
  from answers_saved_and_report_emitted [OF run ret] run ret show ?thesis
    by (simp add: answerfile_path_def userchoices_path_def example_world_def)
qed

text \<open>
  C6. Whenever the pipeline has been invoked and \<open>workflow.run\<close> returns, the command
  leaves through \<open>sys.exit(1)\<close> when the workflow reports failure and returns
  otherwise: the exit status is 1 on failure and 0 without failure.
\<close>

theorem exit_code_reflects_failure:
  assumes "WorkflowRun c k d t \<in> set (calls (snd (upgrade w a (process_start env store))))"
    and "workflow_run w c k t = Some r"
  shows "fst (upgrade w a (process_start env store)) = (if failure r then SystemExit 1 else Returned) \<and>
         exit_code (fst (upgrade w a (process_start env store))) = Some (if failure r then 1 else 0)"
proof -
  note reached = upgrade_run_reached [OF assms(1)]
  from reached have root: "getuid w = 0" and loaded: "load_repositories w = None"
    and t: "t = only_with_tags a"
    by simp_all
  show ?thesis
  proof (cases "resume a")
    case False
    with reached have "c = uuid4 w" and "k = None"
      by simp_all
    with assms(2) t loaded show ?thesis
      by (simp add: upgrade_fresh_path(1) [OF root False] upgrade_run_fst)
  next
    case True
    with reached have found: "fst (fetch_last_upgrade_context w (resume_context a) store) = Some c"
      and c: "c \<noteq> []" and k: "k = get_last_phase w c"
      by simp_all
    from found have fetched: "fetch_last_upgrade_context w (resume_context a)
        (executions (process_start env store)) =
        (Some c, snd (fetch_last_upgrade_context w (resume_context a) store))"
      by (simp add: process_start_def prod_eq_iff)
    from assms(2) t loaded k show ?thesis
      by (simp add: upgrade_resume_path(1) [OF root True fetched c] upgrade_run_fst)
  qed
qed

theorem exit_code_reflects_failure_witness:
  "WorkflowRun ''0a1b2c3d'' None True None
     \<in> set (calls (snd (upgrade example_world fresh_args (process_start Map.empty example_store)))) \<and>
   workflow_run example_world ''0a1b2c3d'' None None = Some \<lparr>errors = [''e1'', ''e2''], failure = True\<rparr> \<and>
   fst (upgrade example_world fresh_args (process_start Map.empty example_store)) = SystemExit 1 \<and>
   exit_code (fst (upgrade example_world fresh_args (process_start Map.empty example_store))) = Some 1"
proof -
  have run: "WorkflowRun ''0a1b2c3d'' None True None
      \<in> set (calls (snd (upgrade example_world fresh_args (process_start Map.empty example_store))))"
    by (simp add: example_fresh_calls)
  have ret: "workflow_run example_world ''0a1b2c3d'' None None =
      Some \<lparr>errors = [''e1'', ''e2''], failure = True\<rparr>"
    by (simp add: example_world_def)
  from exit_code_reflects_failure [OF run ret] run ret show ?thesis
    by simp
qed




text \<open>
  C8, as the code has it. On a resumed invocation with a found execution the two
  variables \<open>LEAPP_DEBUG\<close> and \<open>LEAPP_VERBOSE\<close> are computed and assigned on lines 54 to
  59, before \<open>util.restore_leapp_env_vars(context)\<close> is called on line 60; from that
  call on the command assigns neither of them again.
\<close>

theorem debug_and_verbose_set_before_restore:
  assumes "resume a" and "getuid w = 0"
    and "fetch_last_upgrade_context w (resume_context a) store = (Some ctx, conf)"
    and "ctx \<noteq> []"
  shows "RestoreLeappEnvVars ctx \<in> set (calls (snd (upgrade w a (process_start env store)))) \<and>
         written ''LEAPP_DEBUG''
           (before_restore ctx (calls (snd (upgrade w a (process_start env store))))) =
           [if check_env_and_conf w ''LEAPP_DEBUG'' ''debug'' conf (prepared_environ w a env)
            then ''1'' else ''0''] \<and>
         written ''LEAPP_VERBOSE''
           (before_restore ctx (calls (snd (upgrade w a (process_start env store))))) =
           [if check_env_and_conf w ''LEAPP_DEBUG'' ''debug'' conf (prepared_environ w a env) \<or>
               check_env_and_conf w ''LEAPP_VERBOSE'' ''verbose'' conf
                 ((prepared_environ w a env)(''LEAPP_DEBUG'' \<mapsto> ''0''))
            then ''1'' else ''0''] \<and>
         written ''LEAPP_DEBUG''
           (from_restore ctx (calls (snd (upgrade w a (process_start env store))))) = [] \<and>
         written ''LEAPP_VERBOSE''
           (from_restore ctx (calls (snd (upgrade w a (process_start env store))))) = []"
  unfolding upgrade_calls_around_restore [OF assms]
    before_restore_split [OF no_restore_before_output_level]
  by (simp add: written_simps written_setup_calls written_output_level_calls written_run_calls)

theorem debug_and_verbose_set_before_restore_witness:
  "resume resume_args \<and> getuid example_world = 0 \<and>
   fetch_last_upgrade_context example_world (resume_context resume_args) example_store =
     (Some ''abc-123'', [(''debug'', ''1'')]) \<and>
   RestoreLeappEnvVars ''abc-123''
     \<in> set (calls (snd (upgrade example_world resume_args (process_start Map.empty example_store)))) \<and>
   written ''LEAPP_VERBOSE''
     (before_restore ''abc-123''
        (calls (snd (upgrade example_world resume_args (process_start Map.empty example_store))))) =
     [''1''] \<and>
   written ''LEAPP_VERBOSE''
     (from_restore ''abc-123''
        (calls (snd (upgrade example_world resume_args (process_start Map.empty example_store))))) =
     []"
proof -
  have r: "resume resume_args" and u: "getuid example_world = 0"
    by (simp_all add: resume_args_def example_world_def)
  have f: "fetch_last_upgrade_context example_world (resume_context resume_args) example_store =
      (Some ''abc-123'', [(''debug'', ''1'')])"
    by (simp add: example_world_def resume_args_def fresh_args_def example_store_def
        spec_fetch_last_upgrade_context_def matching_executions_def)
  have c: "check_env_and_conf example_world ''LEAPP_DEBUG'' ''debug'' [(''debug'', ''1'')]
      (prepared_environ example_world resume_args Map.empty)"
    by (simp add: example_world_def spec_check_env_and_conf_def)
  from debug_and_verbose_set_before_restore [OF r u f, where env = Map.empty] r u f c
  show ?thesis
    by simp
qed

text \<open>
  The claim as it is written (the two variables are derived after the restore) does not
  hold: on the concrete host the resumed command assigns \<open>LEAPP_DEBUG\<close> and
  \<open>LEAPP_VERBOSE\<close> among the calls that precede \<open>restore_leapp_env_vars('abc-123')\<close>,
  and assigns neither from that call on.
\<close>

theorem debug_and_verbose_after_restore_counterexample:
  "before_restore ''abc-123''
     (calls (snd (upgrade example_world resume_args (process_start Map.empty example_store)))) =
     [Uuid4, GetConfig, HandleOutputLevel, PrepareConfiguration,
      CfgGet ''report'' ''answerfile'', CfgGet ''report'' ''userchoices'', GetUid,
      FetchLastUpgradeContext None,
      CheckEnvAndConf ''LEAPP_DEBUG'' ''debug'', SetEnv ''LEAPP_DEBUG'' ''1'',
      SetEnv ''LEAPP_VERBOSE'' ''1''] \<and>
   RestoreLeappEnvVars ''abc-123''
     \<in> set (calls (snd (upgrade example_world resume_args (process_start Map.empty example_store)))) \<and>
   written ''LEAPP_DEBUG''
     (from_restore ''abc-123''
        (calls (snd (upgrade example_world resume_args (process_start Map.empty example_store))))) =
     [] \<and>
   written ''LEAPP_VERBOSE''
     (from_restore ''abc-123''
        (calls (snd (upgrade example_world resume_args (process_start Map.empty example_store))))) =
     []"
  by (simp add: example_resume_calls before_restore_def from_restore_def written_simps)

text \<open>
  C9. Whenever the pipeline is invoked, with context \<open>c\<close>: \<open>c\<close> is the generated
  context of a fresh invocation or the fetched context of a resumed one; among the calls
  before the run the command assigns \<open>LEAPP_EXECUTION_ID\<close> once, to \<open>c\<close>, and \<open>LC_ALL\<close>
  and \<open>LANG\<close> once each, to \<open>en_US.UTF-8\<close>; after the run the command assigns no
  environment variable at all, and the environment it leaves holds these three values.
\<close>

theorem identity_and_locale_set_before_run:
  assumes "WorkflowRun c k d t \<in> set (calls (snd (upgrade w a (process_start env store))))"
  shows "(if resume a then fst (fetch_last_upgrade_context w (resume_context a) store) = Some c
          else c = uuid4 w) \<and>
         written ''LEAPP_EXECUTION_ID''
           (before_run (calls (snd (upgrade w a (process_start env store))))) = [c] \<and>
         written ''LC_ALL''
           (before_run (calls (snd (upgrade w a (process_start env store))))) = [''en_US.UTF-8''] \<and>
         written ''LANG''
           (before_run (calls (snd (upgrade w a (process_start env store))))) = [''en_US.UTF-8''] \<and>
         filter is_setenv (after_run (calls (snd (upgrade w a (process_start env store))))) = [] \<and>
         environ (snd (upgrade w a (process_start env store))) ''LEAPP_EXECUTION_ID'' = Some c \<and>
         environ (snd (upgrade w a (process_start env store))) ''LC_ALL'' = Some ''en_US.UTF-8'' \<and>
         environ (snd (upgrade w a (process_start env store))) ''LANG'' = Some ''en_US.UTF-8''"
proof -
  have "if resume a then fst (fetch_last_upgrade_context w (resume_context a) store) = Some c
        else c = uuid4 w"
    using upgrade_run_reached [OF assms] by (simp split: if_splits)
  moreover have "filter is_setenv (after_run (calls (snd (upgrade w a (process_start env store))))) = []"
    by (simp add: upgrade_after_run [OF assms] no_setenv_in_report_calls split: option.split)
  ultimately show ?thesis
    by (simp add: upgrade_before_run [OF assms] upgrade_environ_when_run [OF assms]
        written_simps written_path_calls written_launch_calls)
qed

theorem identity_and_locale_set_before_run_witness:
  "WorkflowRun ''abc-123'' (Some ''Download'') True None
     \<in> set (calls (snd (upgrade example_world resume_args (process_start Map.empty example_store)))) \<and>
   written ''LEAPP_EXECUTION_ID''
     (before_run
        (calls (snd (upgrade example_world resume_args (process_start Map.empty example_store))))) =
     [''abc-123''] \<and>
   written ''LC_ALL''
     (before_run
        (calls (snd (upgrade example_world resume_args (process_start Map.empty example_store))))) =
     [''en_US.UTF-8''] \<and>
   environ (snd (upgrade example_world resume_args (process_start Map.empty example_store)))
     ''LEAPP_EXECUTION_ID'' = Some ''abc-123''"
proof -
  have run: "WorkflowRun ''abc-123'' (Some ''Download'') True None
      \<in> set (calls (snd (upgrade example_world resume_args (process_start Map.empty example_store))))"
    by (simp add: example_resume_calls)
  from identity_and_locale_set_before_run [OF run] run show ?thesis
    by simp
qed

section \<open>Properties of the MySQL repository setup\<close>

subsection \<open>What process hands out when it returns\<close>

lemma emit_simps:
  "produced (emit out st) = produced st @ [out]"
  "mysql_types (emit out st) = mysql_types st"
  "clmysql_type (emit out st) = clmysql_type st"
  "custom_repo_msgs (emit out st) = custom_repo_msgs st"
  by (simp_all add: emit_def)

lemma tidy_emit: "tidy st \<Longrightarrow> \<not> is_installed_types out \<Longrightarrow> tidy (emit out st)"
  by (simp add: tidy_def emit_simps)

lemma cl_step_tidy: "cl_step h repo st = Inr (repo', st') \<Longrightarrow> tidy st \<Longrightarrow> tidy st'"
  by (auto simp add: cl_step_def Let_def tidy_def split: if_splits)

lemma maria_step_tidy: "maria_step repo st = Inr (repo', st') \<Longrightarrow> tidy st \<Longrightarrow> tidy st'"
  by (auto simp add: maria_step_def Let_def tidy_def split: if_splits list.splits)

lemma mysql_step_tidy: "mysql_step repo st = Inr (repo', st') \<Longrightarrow> tidy st \<Longrightarrow> tidy st'"
  by (auto simp add: mysql_step_def Let_def tidy_def emit_simps split: if_splits)

lemma for_repos_tidy:
  assumes step: "\<And>repo st repo' st'. step repo st = Inr (repo', st') \<Longrightarrow> tidy st \<Longrightarrow> tidy st'"
  shows "for_repos step repos st = Inr (repos', st') \<Longrightarrow> tidy st \<Longrightarrow> tidy st'"
proof (induction repos arbitrary: st repos' st')
  case Nil
  then show ?case by simp
next
  case (Cons repo repos)
  from Cons.prems(1) obtain r1 s1 rs where
    first: "step repo st = Inr (r1, s1)" and rest: "for_repos step repos s1 = Inr (rs, st')"
    by (auto split: sum.splits)
  from step [OF first Cons.prems(2)] have "tidy s1" .
  with Cons.IH [OF rest] show ?case .
qed

lemma finish_repofile_tidy:
  assumes "tidy (snd result)" and "t \<in> {''cloudlinux'', ''mariadb'', ''mysql''}"
  shows "tidy (finish_repofile h t n result)"
  using assms by (auto simp add: finish_repofile_def Let_def tidy_def emit_simps set_add_def)

lemma process_branch_tidy:
  assumes step: "\<And>repo st repo' st'. step repo st = Inr (repo', st') \<Longrightarrow> tidy st \<Longrightarrow> tidy st'"
    and "t \<in> {''cloudlinux'', ''mariadb'', ''mysql''}"
    and "process_branch h t n step path st = Inr st'" and "tidy st"
  shows "tidy st'"
proof -
  from assms(3) obtain result where
    looped: "for_repos step (parse_repofile h path) st = Inr result"
    and st': "st' = finish_repofile h t n result"
    by (auto simp add: process_branch_def split: sum.splits)
  from looped have "for_repos step (parse_repofile h path) st = Inr (fst result, snd result)"
    by simp
  from for_repos_tidy [of step, OF step this assms(4)] have "tidy (snd result)" .
  with assms(2) st' show ?thesis
    by (simp add: finish_repofile_tidy)
qed

lemma process_repofile_tidy:
  assumes "process_repofile h f st = Inr st'" and "tidy st"
  shows "tidy st'"
proof -
  note cl = process_branch_tidy [of "cl_step h" "''cloudlinux''", OF cl_step_tidy]
  note maria = process_branch_tidy [of maria_step "''mariadb''", OF maria_step_tidy]
  note mysql = process_branch_tidy [of mysql_step "''mysql''", OF mysql_step_tidy]
  from assms show ?thesis
    by (auto simp add: process_repofile_def Let_def split: if_splits
        intro: cl [rotated 2] maria [rotated 2] mysql [rotated 2])
qed

lemma process_repofiles_tidy:
  "process_repofiles h fs st = Inr st' \<Longrightarrow> tidy st \<Longrightarrow> tidy st'"
proof (induction fs arbitrary: st)
  case Nil
  then show ?case by simp
next
  case (Cons f fs)
  from Cons.prems(1) obtain s1 where
    first: "process_repofile h f st = Inr s1" and rest: "process_repofiles h fs s1 = Inr st'"
    by (auto split: sum.splits)
  from process_repofile_tidy [OF first Cons.prems(2)] have "tidy s1" .
  with Cons.IH [OF rest] show ?case .
qed

lemma tidy_initial_scan: "tidy initial_scan"
  by (simp add: tidy_def initial_scan_def)

lemma produce_all_simps:
  "produced (fold (\<lambda>msg. emit (Produce msg)) msgs st) = produced st @ map Produce msgs"
  "mysql_types (fold (\<lambda>msg. emit (Produce msg)) msgs st) = mysql_types st"
  "clmysql_type (fold (\<lambda>msg. emit (Produce msg)) msgs st) = clmysql_type st"
  "custom_repo_msgs (fold (\<lambda>msg. emit (Produce msg)) msgs st) = custom_repo_msgs st"
  by (induction msgs arbitrary: st) (simp_all add: emit_simps)

lemma not_installed_types_custom_repo:
  "is_custom_repo m \<Longrightarrow> \<not> is_installed_types (Produce m)"
  by (cases m) simp_all

lemma report_detected_tidy: "tidy st \<Longrightarrow> tidy (report_detected st)"
  by (auto simp add: report_detected_def Let_def tidy_def emit_simps produce_all_simps
      list_all_iff not_installed_types_custom_repo)

lemma report_detected_keeps:
  "mysql_types (report_detected st) = mysql_types st"
  "clmysql_type (report_detected st) = clmysql_type st"
  by (simp_all add: report_detected_def Let_def emit_simps produce_all_simps)

lemma enable_module_tidy: "enable_module h st = Inr st' \<Longrightarrow> tidy st \<Longrightarrow> tidy st'"
  by (auto simp add: enable_module_def tidy_emit split: option.splits if_splits list.splits)

lemma enable_module_keeps:
  assumes "enable_module h st = Inr st'"
  shows "mysql_types st' = mysql_types st" and "clmysql_type st' = clmysql_type st"
  using assms
  by (auto simp add: enable_module_def emit_simps split: option.splits if_splits list.splits)

text \<open>
  Whenever \<open>process\<close> returns, the last thing it handed out is the one
  \<open>InstalledMySqlTypes\<close> message of the run; its types are the tags the loop collected,
  each of them \<open>cloudlinux\<close>, \<open>mariadb\<close> or \<open>mysql\<close>, and its version is the
  \<open>clmysql_type\<close> the loop left.
\<close>

lemma process_returns_installed_types:
  assumes "process h = Inr outs"
  shows "\<exists>st. process_repofiles h (listdir h) initial_scan = Inr st \<and>
              filter is_installed_types outs =
                [Produce (InstalledMySqlTypes (mysql_types st) (clmysql_type st))] \<and>
              last outs = Produce (InstalledMySqlTypes (mysql_types st) (clmysql_type st)) \<and>
              set (mysql_types st) \<subseteq> {''cloudlinux'', ''mariadb'', ''mysql''} \<and>
              distinct (mysql_types st)"
proof -
  from assms obtain st st' where
    scanned: "process_repofiles h (listdir h) initial_scan = Inr st"
    and enabled: "enable_module h (report_detected st) = Inr st'"
    and outs: "outs = produced st' @
        [Produce (InstalledMySqlTypes (mysql_types st') (clmysql_type st'))]"
    by (auto simp add: process_def emit_simps split: sum.splits)
  from process_repofiles_tidy [OF scanned tidy_initial_scan] have "tidy st" .
  then have "tidy st'"
    using enable_module_tidy [OF enabled] report_detected_tidy by blast
  then have none: "filter is_installed_types (produced st') = []"
    by (simp add: tidy_def list_all_iff)
  have same: "mysql_types st' = mysql_types st" "clmysql_type st' = clmysql_type st"
    using enable_module_keeps [OF enabled] by (simp_all add: report_detected_keeps)
  from \<open>tidy st\<close> have "set (mysql_types st) \<subseteq> {''cloudlinux'', ''mariadb'', ''mysql''}"
    and "distinct (mysql_types st)"
    by (simp_all add: tidy_def)
  with scanned outs none same show ?thesis
    by simp
qed

text \<open>With no repository file in the directory the message has no types and no version.\<close>

lemma process_empty_directory:
  "listdir h = [] \<Longrightarrow> process h = Inr [Produce (InstalledMySqlTypes [] None)]"
  by (simp add: process_def initial_scan_def report_detected_def enable_module_def emit_def)

subsection \<open>Two runs\<close>

lemma split_scan_example:
  "py_split ''https://rpm.mariadb.org/10.6/centos/7/x86_64'' ''yum'' =
     [''https://rpm.mariadb.org/10.6/centos/7/x86_64'']"
  by (simp add: py_split_def startswith_def)

lemma process_archive_mariadb_host:
  "process archive_mariadb_host =
     Inr [Produce (CustomTargetRepositoryFile ''MariaDB_leapp_custom.repo''),
          CreateReport backup_title,
          Produce (CustomTargetRepository ''mariadb-8'' ''MariaDB''
                     ''https://archive.mariadb.org/mariadb-10.3/yum/centos/8/x86_64'' True),
          Produce (InstalledMySqlTypes [''mariadb''] None)]"
  by (simp add: process_def initial_scan_def archive_mariadb_host_def mariadb_host_def process_repofile_def
      endswith_def slice_to_minus_def path_join_def startswith_def CL_MARKERS_def
      MARIA_MARKERS_def process_branch_def maria_step_def py_split_def py_replace_def
      finish_repofile_def set_add_def emit_def report_detected_def enable_module_def Let_def)

text \<open>
  C10. The claim is that \<open>process()\<close> produces its one \<open>InstalledMySqlTypes\<close> message
  for every input. Whenever it returns it has produced exactly one, as its last act,
  but it does not always return: for a
  file \<open>MariaDB.repo\<close> whose repository has a \<open>baseurl\<close> without the text \<open>yum\<close>,
  as the repositories at rpm.mariadb.org have, \<open>url_parts[1]\<close> on line 114 raises
  \<open>IndexError\<close>, the exception leaves \<open>process()\<close> and no message is produced.
\<close>

theorem process_raises_without_yum_in_baseurl: "process mariadb_host = Inl IndexError"
  by (simp add: process_def initial_scan_def mariadb_host_def process_repofile_def endswith_def
      slice_to_minus_def path_join_def startswith_def CL_MARKERS_def MARIA_MARKERS_def
      process_branch_def maria_step_def py_split_def)

end
